theory Spec2Isabelle
  imports Complex_Main "HOL-Library.List_Lexorder"
begin

section \<open>Data model (src/types/index.ts)\<close>

text \<open>
  A JavaScript string is a sequence of UTF-16 code units; the euro sign (8364), the long
  dash (8211) and the accented letters the import pipeline handles lie outside one byte,
  so a string is a list of code units. \<open>asc\<close> writes an ASCII literal as such a list.

  Numbers are exact rationals: the finite values a JSON text or a numeric SQL column can
  hold, without the rounding of IEEE doubles.
\<close>

type_synonym ustring = "nat list"
type_synonym number = rat

definition asc :: "string \<Rightarrow> ustring" where
  "asc s = map of_char s"

text \<open>An optional property (\<open>seller?: string\<close>): absent, \<open>null\<close> (a SQL NULL read
  back), or a value. Strict equality tells the three apart.\<close>

datatype 'a optional = Undefined | Null | Val 'a

record sale =
  sale_id :: ustring
  sale_date :: ustring
  clientName :: ustring
  productName :: ustring
  sale_quantity :: number
  sale_unitPrice :: number
  totalAmount :: number
  paymentMethod :: ustring
  sale_notes :: "ustring optional"
  sale_seller :: "ustring optional"
  sale_register :: "ustring optional"
  sale_category :: "ustring optional"

record stockItem =
  item_id :: ustring
  item_name :: ustring
  item_category :: ustring
  subcategory :: ustring
  currentStock :: number
  alertThreshold :: number
  initialStock :: number
  item_unitPrice :: number

datatype movementType = In | Out

record stockMovement =
  mv_id :: ustring
  mv_date :: ustring
  productId :: ustring
  mv_type :: movementType
  mv_quantity :: number
  reason :: ustring
  mv_register :: "ustring optional"
  mv_seller :: "ustring optional"

section \<open>Strings\<close>

text \<open>\<open>String.prototype.toLowerCase\<close> on Basic Latin and Latin-1 Supplement (A-Z and
  the capital letters 192-222 but the multiplication sign 215); other code units are
  left as they are.\<close>

definition lowerUnit :: "nat \<Rightarrow> nat" where
  "lowerUnit c =
     (if (65 \<le> c \<and> c \<le> 90) \<or> (192 \<le> c \<and> c \<le> 222 \<and> c \<noteq> 215) then c + 32 else c)"

definition toLowerCase :: "ustring \<Rightarrow> ustring" where
  "toLowerCase s = map lowerUnit s"

text \<open>Decimal rendering of a natural number, as a template literal prints a length.\<close>

fun digitsOf :: "nat \<Rightarrow> nat \<Rightarrow> ustring" where
  "digitsOf 0 n = []"
| "digitsOf (Suc fuel) n =
     (if n < 10 then [48 + n] else digitsOf fuel (n div 10) @ [48 + n mod 10])"

definition showNat :: "nat \<Rightarrow> ustring" where
  "showNat n = digitsOf (Suc n) n"

section \<open>The two stores\<close>

subsection \<open>Browser local storage\<close>

text \<open>
  The text stored under a key of an entity collection is either the empty string, a text
  that \<open>JSON.parse\<close> rejects, or the JSON text of a value of the declared type (what
  \<open>JSON.stringify\<close> wrote). \<open>localStorage.setItem\<close> is taken to succeed.
\<close>

datatype 'a blob = EmptyText | Corrupt | Json 'a

record localStorage =
  ls_sales :: "sale list blob option"              \<comment> \<open>suiviventes-data\<close>
  ls_stock :: "stockItem list blob option"         \<comment> \<open>suiviventes-stock\<close>
  ls_movements :: "stockMovement list blob option" \<comment> \<open>suiviventes-stock-movements\<close>
  ls_readonly :: "string option"                   \<comment> \<open>suiviventes-readonly\<close>
  ls_migrated :: "string option"                   \<comment> \<open>suiviventes-migrated\<close>

datatype error = ReadOnlyError | SyntaxError | TypeError | SupabaseError

definition JSON_parse :: "'a blob \<Rightarrow> error + 'a" where
  "JSON_parse b = (case b of Json v \<Rightarrow> Inr v | _ \<Rightarrow> Inl SyntaxError)"

text \<open>\<open>!storedData\<close>: the key is absent or holds the empty string.\<close>

definition falsy :: "'a blob option \<Rightarrow> bool" where
  "falsy d = (case d of None \<Rightarrow> True | Some EmptyText \<Rightarrow> True | Some _ \<Rightarrow> False)"

subsection \<open>The remote backend\<close>

text \<open>
  The three tables as the session's user sees them under row-level security, the user of
  the session (none when signed out), the outcomes of the requests to come (\<open>False\<close>: the
  request is answered with an error, whatever its cause; once the list is used up every
  request is served), and the identifiers \<open>gen_random_uuid()\<close> will hand out.
\<close>

record remote =
  r_user :: "ustring option"
  r_sales :: "sale list"
  r_stock :: "stockItem list"
  r_movements :: "stockMovement list"
  r_outcomes :: "bool list"
  r_uuid :: "nat \<Rightarrow> ustring"
  r_uuid_next :: nat

definition request :: "remote \<Rightarrow> bool \<times> remote" where
  "request r = (case r_outcomes r of [] \<Rightarrow> (True, r) | b # bs \<Rightarrow> (b, r\<lparr>r_outcomes := bs\<rparr>))"

text \<open>\<open>supabase.auth.getUser()\<close>: the user, or none when the request fails.\<close>

definition auth_getUser :: "remote \<Rightarrow> ustring option \<times> remote" where
  "auth_getUser r = (let (ok, r1) = request r in (if ok then r_user r1 else None, r1))"

text \<open>The trigger \<open>update_stock_on_sale\<close> of the migration, run after each inserted row:
  every stock item of that exact name loses the quantity, and one \<open>out\<close> movement per such
  item is logged.\<close>

definition saleMovement :: "sale \<Rightarrow> ustring \<Rightarrow> stockItem \<Rightarrow> stockMovement" where
  "saleMovement s u it =
     \<lparr>mv_id = u, mv_date = sale_date s, productId = item_id it, mv_type = Out,
      mv_quantity = sale_quantity s, reason = asc ''Sale #'' @ sale_id s,
      mv_register = sale_register s, mv_seller = sale_seller s\<rparr>"

definition update_stock_on_sale :: "sale \<Rightarrow> remote \<Rightarrow> remote" where
  "update_stock_on_sale s r =
     (let stock' = map (\<lambda>it. if item_name it = productName s
                                then it\<lparr>currentStock := currentStock it - sale_quantity s\<rparr>
                                else it) (r_stock r);
          hits = filter (\<lambda>it. item_name it = productName s) stock';
          ms = map (\<lambda>(k, it). saleMovement s (r_uuid r (r_uuid_next r + k)) it)
                 (zip [0 ..< length hits] hits)
      in r\<lparr>r_stock := stock', r_movements := r_movements r @ ms,
            r_uuid_next := r_uuid_next r + length hits\<rparr>)"

definition insert_sales :: "sale list \<Rightarrow> remote \<Rightarrow> remote" where
  "insert_sales ss r = fold (\<lambda>s r'. update_stock_on_sale s (r'\<lparr>r_sales := r_sales r' @ [s]\<rparr>)) ss r"

section \<open>Remote operations (src/utils/supabaseStorage.ts)\<close>

definition getSalesFromSupabase :: "remote \<Rightarrow> (error + sale list) \<times> remote" where
  "getSalesFromSupabase r =
     (let (ok, r1) = request r in
      if ok then (Inr (rev (sort_key sale_date (r_sales r1))), r1) else (Inl SupabaseError, r1))"

definition addSaleToSupabase :: "sale \<Rightarrow> remote \<Rightarrow> (error + unit) \<times> remote" where
  "addSaleToSupabase s r =
     (let (user, r1) = auth_getUser r in
      if user = None then (Inl SupabaseError, r1)
      else let (ok, r2) = request r1 in
           if ok then (Inr (), insert_sales [s] r2) else (Inl SupabaseError, r2))"

definition updateSaleInSupabase :: "sale \<Rightarrow> remote \<Rightarrow> (error + unit) \<times> remote" where
  "updateSaleInSupabase s r =
     (let (ok, r1) = request r in
      if ok then (Inr (), r1\<lparr>r_sales := map (\<lambda>x. if sale_id x = sale_id s then s else x) (r_sales r1)\<rparr>)
      else (Inl SupabaseError, r1))"

definition deleteSaleFromSupabase :: "ustring \<Rightarrow> remote \<Rightarrow> (error + unit) \<times> remote" where
  "deleteSaleFromSupabase i r =
     (let (ok, r1) = request r in
      if ok then (Inr (), r1\<lparr>r_sales := filter (\<lambda>x. sale_id x \<noteq> i) (r_sales r1)\<rparr>)
      else (Inl SupabaseError, r1))"

definition getStockFromSupabase :: "remote \<Rightarrow> (error + stockItem list) \<times> remote" where
  "getStockFromSupabase r =
     (let (ok, r1) = request r in
      if ok then (Inr (sort_key item_name (r_stock r1)), r1) else (Inl SupabaseError, r1))"

definition addStockItemToSupabase :: "stockItem \<Rightarrow> remote \<Rightarrow> (error + unit) \<times> remote" where
  "addStockItemToSupabase it r =
     (let (user, r1) = auth_getUser r in
      if user = None then (Inl SupabaseError, r1)
      else let (ok, r2) = request r1 in
           if ok then (Inr (), r2\<lparr>r_stock := r_stock r2 @ [it]\<rparr>) else (Inl SupabaseError, r2))"

definition updateStockItemInSupabase :: "stockItem \<Rightarrow> remote \<Rightarrow> (error + unit) \<times> remote" where
  "updateStockItemInSupabase it r =
     (let (ok, r1) = request r in
      if ok then (Inr (), r1\<lparr>r_stock := map (\<lambda>x. if item_id x = item_id it then it else x) (r_stock r1)\<rparr>)
      else (Inl SupabaseError, r1))"

text \<open>Deleting a stock item deletes its movements (\<open>ON DELETE CASCADE\<close>).\<close>

definition deleteStockItemFromSupabase :: "ustring \<Rightarrow> remote \<Rightarrow> (error + unit) \<times> remote" where
  "deleteStockItemFromSupabase i r =
     (let (ok, r1) = request r in
      if ok then (Inr (), r1\<lparr>r_stock := filter (\<lambda>x. item_id x \<noteq> i) (r_stock r1),
                              r_movements := filter (\<lambda>m. productId m \<noteq> i) (r_movements r1)\<rparr>)
      else (Inl SupabaseError, r1))"

definition getStockMovementsFromSupabase :: "remote \<Rightarrow> (error + stockMovement list) \<times> remote" where
  "getStockMovementsFromSupabase r =
     (let (ok, r1) = request r in
      if ok then (Inr (rev (sort_key mv_date (r_movements r1))), r1) else (Inl SupabaseError, r1))"

definition addStockMovementToSupabase :: "stockMovement \<Rightarrow> remote \<Rightarrow> (error + unit) \<times> remote" where
  "addStockMovementToSupabase m r =
     (let (user, r1) = auth_getUser r in
      if user = None then (Inl SupabaseError, r1)
      else let (ok, r2) = request r1 in
           if ok then (Inr (), r2\<lparr>r_movements := r_movements r2 @ [m]\<rparr>) else (Inl SupabaseError, r2))"

definition addMultipleSalesToSupabase :: "sale list \<Rightarrow> remote \<Rightarrow> (error + unit) \<times> remote" where
  "addMultipleSalesToSupabase ss r =
     (let (user, r1) = auth_getUser r in
      if user = None then (Inl SupabaseError, r1)
      else let (ok, r2) = request r1 in
           if ok then (Inr (), insert_sales ss r2) else (Inl SupabaseError, r2))"

definition addMultipleStockItemsToSupabase :: "stockItem list \<Rightarrow> remote \<Rightarrow> (error + unit) \<times> remote" where
  "addMultipleStockItemsToSupabase its r =
     (let (user, r1) = auth_getUser r in
      if user = None then (Inl SupabaseError, r1)
      else let (ok, r2) = request r1 in
           if ok then (Inr (), r2\<lparr>r_stock := r_stock r2 @ its\<rparr>) else (Inl SupabaseError, r2))"


section \<open>The storage facade (src/utils/storage.ts)\<close>

text \<open>
  The world an operation runs in: the browser's local storage, the remote backend, the
  identifiers \<open>crypto.randomUUID()\<close> will hand out, and the clock's reading
  (\<open>new Date().toISOString()\<close>). An operation returns its result, \<open>Inl\<close> for a thrown
  error, and the world it leaves.
\<close>

record world =
  store :: localStorage
  backend :: remote
  uuid :: "nat \<Rightarrow> ustring"
  uuid_next :: nat
  now :: ustring

type_synonym 'a io = "world \<Rightarrow> (error + 'a) \<times> world"

text \<open>Sequencing of awaited calls: a thrown error ends the caller.\<close>

definition andThen :: "(error + 'a) \<times> world \<Rightarrow> ('a \<Rightarrow> 'b io) \<Rightarrow> (error + 'b) \<times> world" where
  "andThen m f = (case m of (Inl e, w) \<Rightarrow> (Inl e, w) | (Inr v, w) \<Rightarrow> f v w)"

definition onBackend :: "(remote \<Rightarrow> (error + 'a) \<times> remote) \<Rightarrow> 'a io" where
  "onBackend f w = (let (res, r1) = f (backend w) in (res, w\<lparr>backend := r1\<rparr>))"

definition randomUUID :: "world \<Rightarrow> ustring \<times> world" where
  "randomUUID w = (uuid w (uuid_next w), w\<lparr>uuid_next := Suc (uuid_next w)\<rparr>)"

definition isReadOnlyMode :: "world \<Rightarrow> bool" where
  "isReadOnlyMode w = (ls_readonly (store w) = Some ''true'')"

text \<open>\<open>isAuthenticated\<close> asks the backend for the user; \<open>shouldUseSupabase\<close> turns a
  failure into \<open>false\<close>.\<close>

definition shouldUseSupabase :: "world \<Rightarrow> bool \<times> world" where
  "shouldUseSupabase w =
     (let (user, r1) = auth_getUser (backend w) in (user \<noteq> None, w\<lparr>backend := r1\<rparr>))"

text \<open>
  The pattern every operation of the facade repeats:
  \<^verbatim>\<open>try { if (await shouldUseSupabase()) { await op(); return; } } catch { warn }\<close>
  followed by the local fallback. The fallback runs when the session is not
  authenticated and when the remote operation throws.
\<close>

definition viaSupabase :: "(remote \<Rightarrow> (error + 'a) \<times> remote) \<Rightarrow> 'a io \<Rightarrow> 'a io" where
  "viaSupabase op fallback w =
     (let (auth, w1) = shouldUseSupabase w in
      if auth then (case onBackend op w1 of
                      (Inr v, w2) \<Rightarrow> (Inr v, w2)
                    | (Inl e, w2) \<Rightarrow> fallback w2)
      else fallback w1)"

text \<open>The local part of a read: an absent or empty text gives the empty list, and so
  does a text that \<open>JSON.parse\<close> rejects (the error is caught and logged).\<close>

definition readLocal :: "'a list blob option \<Rightarrow> error + 'a list" where
  "readLocal storedData =
     (if falsy storedData then Inr []
      else case storedData of
             None \<Rightarrow> Inr []
           | Some b \<Rightarrow> (case JSON_parse b of Inr v \<Rightarrow> Inr v | Inl e \<Rightarrow> Inr []))"

definition getSales :: "sale list io" where
  "getSales = viaSupabase getSalesFromSupabase (\<lambda>w. (readLocal (ls_sales (store w)), w))"

definition getStock :: "stockItem list io" where
  "getStock = viaSupabase getStockFromSupabase (\<lambda>w. (readLocal (ls_stock (store w)), w))"

definition getStockMovements :: "stockMovement list io" where
  "getStockMovements =
     viaSupabase getStockMovementsFromSupabase (\<lambda>w. (readLocal (ls_movements (store w)), w))"

text \<open>\<open>saveSales\<close> and \<open>saveStock\<close> write to local storage whether or not the session is
  authenticated.\<close>

definition saveSales :: "sale list \<Rightarrow> unit io" where
  "saveSales sales w =
     (if isReadOnlyMode w then (Inl ReadOnlyError, w)
      else let (auth, w1) = shouldUseSupabase w in
           (Inr (), w1\<lparr>store := (store w1)\<lparr>ls_sales := Some (Json sales)\<rparr>\<rparr>))"

definition saveStock :: "stockItem list \<Rightarrow> unit io" where
  "saveStock stock w =
     (if isReadOnlyMode w then (Inl ReadOnlyError, w)
      else let (auth, w1) = shouldUseSupabase w in
           (Inr (), w1\<lparr>store := (store w1)\<lparr>ls_stock := Some (Json stock)\<rparr>\<rparr>))"

definition addStockMovement :: "stockMovement \<Rightarrow> unit io" where
  "addStockMovement movement w =
     (if isReadOnlyMode w then (Inl ReadOnlyError, w)
      else viaSupabase (addStockMovementToSupabase movement)
             (\<lambda>w1. andThen (getStockMovements w1)
                (\<lambda>movements w2.
                   (Inr (), w2\<lparr>store := (store w2)\<lparr>ls_movements := Some (Json (movements @ [movement]))\<rparr>\<rparr>)))
             w)"

text \<open>\<open>stock.find(...)\<close> returns the first item that matches, and the assignment to its
  \<open>currentStock\<close> changes that element of the array.\<close>

text \<open>The test of \<open>stock.find\<close>: \<open>item.name.toLowerCase() === productName\<close>.\<close>

definition named :: "ustring \<Rightarrow> stockItem \<Rightarrow> bool" where
  "named pname it = (toLowerCase (item_name it) = pname)"

fun updateFirst :: "('a \<Rightarrow> bool) \<Rightarrow> ('a \<Rightarrow> 'a) \<Rightarrow> 'a list \<Rightarrow> 'a list" where
  "updateFirst P f [] = []"
| "updateFirst P f (x # xs) = (if P x then f x # xs else x # updateFirst P f xs)"

definition updateStockFromSale :: "sale \<Rightarrow> unit io" where
  "updateStockFromSale s w =
     andThen (getStock w)
       (\<lambda>stock w1.
          case find (named (toLowerCase (productName s))) stock of
            None \<Rightarrow> (Inr (), w1)
          | Some stockItem \<Rightarrow>
              andThen
                (saveStock (updateFirst (named (toLowerCase (productName s)))
                   (\<lambda>it. it\<lparr>currentStock := currentStock it - sale_quantity s\<rparr>) stock) w1)
                (\<lambda>_ w2.
                   let (u, w3) = randomUUID w2 in
                   addStockMovement
                     \<lparr>mv_id = u, mv_date = sale_date s, productId = item_id stockItem,
                      mv_type = Out, mv_quantity = sale_quantity s,
                      reason = asc ''Vente #'' @ sale_id s,
                      mv_register = sale_register s, mv_seller = sale_seller s\<rparr> w3))"

definition addSale :: "sale \<Rightarrow> unit io" where
  "addSale s w =
     (if isReadOnlyMode w then (Inl ReadOnlyError, w)
      else viaSupabase (addSaleToSupabase s)
             (\<lambda>w1. andThen (getSales w1)
                (\<lambda>sales w2. andThen (saveSales (sales @ [s]) w2)
                   (\<lambda>_ w3. updateStockFromSale s w3)))
             w)"

definition updateSale :: "sale \<Rightarrow> unit io" where
  "updateSale updatedSale w =
     (if isReadOnlyMode w then (Inl ReadOnlyError, w)
      else viaSupabase (updateSaleInSupabase updatedSale)
             (\<lambda>w1. andThen (getSales w1)
                (\<lambda>sales w2.
                   saveSales (map (\<lambda>s. if sale_id s = sale_id updatedSale then updatedSale else s) sales) w2))
             w)"

definition deleteSale :: "ustring \<Rightarrow> unit io" where
  "deleteSale i w =
     (if isReadOnlyMode w then (Inl ReadOnlyError, w)
      else viaSupabase (deleteSaleFromSupabase i)
             (\<lambda>w1. andThen (getSales w1)
                (\<lambda>sales w2. saveSales (filter (\<lambda>s. sale_id s \<noteq> i) sales) w2))
             w)"

definition addStockItem :: "stockItem \<Rightarrow> unit io" where
  "addStockItem it w =
     (if isReadOnlyMode w then (Inl ReadOnlyError, w)
      else viaSupabase (addStockItemToSupabase it)
             (\<lambda>w1. andThen (getStock w1) (\<lambda>stock w2. saveStock (stock @ [it]) w2))
             w)"

definition updateStockItem :: "stockItem \<Rightarrow> unit io" where
  "updateStockItem updatedItem w =
     (if isReadOnlyMode w then (Inl ReadOnlyError, w)
      else viaSupabase (updateStockItemInSupabase updatedItem)
             (\<lambda>w1. andThen (getStock w1)
                (\<lambda>stock w2.
                   saveStock (map (\<lambda>it. if item_id it = item_id updatedItem then updatedItem else it) stock) w2))
             w)"

definition deleteStockItem :: "ustring \<Rightarrow> unit io" where
  "deleteStockItem i w =
     (if isReadOnlyMode w then (Inl ReadOnlyError, w)
      else viaSupabase (deleteStockItemFromSupabase i)
             (\<lambda>w1. andThen (getStock w1)
                (\<lambda>stock w2. saveStock (filter (\<lambda>it. item_id it \<noteq> i) stock) w2))
             w)"


subsection \<open>Stock reconciliation of an imported batch\<close>

text \<open>
  \<open>stockUpdates\<close> is a plain object used as a dictionary from the lower-cased product
  name to the summed quantity and the sales of that product; an association list keeps
  the order in which the keys were created. Two lower-case keys are inherited from
  \<open>Object.prototype\<close>: for them \<open>stockUpdates[productKey]\<close> is already truthy, no entry is
  created, and \<open>.sales.push\<close> is a call on \<open>undefined\<close>, a \<open>TypeError\<close>.
\<close>

type_synonym stockUpdates = "(ustring \<times> number \<times> sale list) list"

definition inheritedKeys :: "ustring list" where
  "inheritedKeys = [asc ''constructor'', asc ''__proto__'']"

definition groupSale :: "sale \<Rightarrow> stockUpdates \<Rightarrow> error + stockUpdates" where
  "groupSale s su =
     (let productKey = toLowerCase (productName s) in
      if productKey \<in> set inheritedKeys then Inl TypeError
      else let su1 = (if map_of su productKey = None then su @ [(productKey, 0, [])] else su)
           in Inr (map (\<lambda>(k, q, ss). if k = productKey then (k, q + sale_quantity s, ss @ [s])
                                       else (k, q, ss)) su1))"

fun groupSales :: "sale list \<Rightarrow> stockUpdates \<Rightarrow> error + stockUpdates" where
  "groupSales [] su = Inr su"
| "groupSales (s # ss) su =
     (case groupSale s su of Inl e \<Rightarrow> Inl e | Inr su1 \<Rightarrow> groupSales ss su1)"

text \<open>\<open>Object.entries\<close> lists the keys that are array indices (canonical decimal
  numerals below \<open>2^32 - 1\<close>) first, in ascending numeric order, and the other keys in
  the order of their creation.\<close>

definition decimalValue :: "ustring \<Rightarrow> nat" where
  "decimalValue k = foldl (\<lambda>a c. 10 * a + (c - 48)) 0 k"

definition isArrayIndex :: "ustring \<Rightarrow> bool" where
  "isArrayIndex k =
     (k \<noteq> [] \<and> list_all (\<lambda>c. 48 \<le> c \<and> c \<le> 57) k \<and> (k = [48] \<or> hd k \<noteq> 48)
      \<and> decimalValue k < 4294967295)"

definition entries :: "(ustring \<times> 'v) list \<Rightarrow> (ustring \<times> 'v) list" where
  "entries obj =
     sort_key (\<lambda>(k, v). decimalValue k) (filter (\<lambda>(k, v). isArrayIndex k) obj)
     @ filter (\<lambda>(k, v). \<not> isArrayIndex k) obj"

definition importMovement :: "ustring \<Rightarrow> ustring \<Rightarrow> stockItem \<Rightarrow> number \<Rightarrow> sale list \<Rightarrow> sale \<Rightarrow> stockMovement" where
  "importMovement u date stockItem totalQuantity productSales firstSale =
     \<lparr>mv_id = u, mv_date = date, productId = item_id stockItem, mv_type = Out,
      mv_quantity = totalQuantity,
      reason = asc ''Import: '' @ showNat (length productSales) @ asc '' vente(s)'',
      mv_register = sale_register firstSale, mv_seller = sale_seller firstSale\<rparr>"

text \<open>The loop over the groups: the stock array and the list of movements as they stand,
  and the world (an identifier is drawn for each movement).\<close>

fun reconcile :: "stockUpdates \<Rightarrow> stockItem list \<Rightarrow> stockMovement list \<Rightarrow> world
    \<Rightarrow> (error + stockItem list \<times> stockMovement list) \<times> world" where
  "reconcile [] stock movements w = (Inr (stock, movements), w)"
| "reconcile ((pname, totalQuantity, productSales) # rest) stock movements w =
     (case find (named pname) stock of
        None \<Rightarrow> reconcile rest stock movements w
      | Some stockItem \<Rightarrow>
          (case productSales of
             [] \<Rightarrow> (Inl TypeError, w)
           | firstSale # _ \<Rightarrow>
               let stock1 = updateFirst (named pname)
                              (\<lambda>it. it\<lparr>currentStock := currentStock it - totalQuantity\<rparr>) stock;
                   (u, w1) = randomUUID w
               in reconcile rest stock1
                    (movements @ [importMovement u (now w1) stockItem totalQuantity productSales firstSale])
                    w1))"

fun addStockMovements :: "stockMovement list \<Rightarrow> unit io" where
  "addStockMovements [] w = (Inr (), w)"
| "addStockMovements (m # ms) w =
     (case addStockMovement m w of
        (Inl e, w1) \<Rightarrow> (Inl e, w1)
      | (Inr _, w1) \<Rightarrow> addStockMovements ms w1)"

definition updateStockFromSales :: "sale list \<Rightarrow> unit io" where
  "updateStockFromSales sales w =
     (if sales = [] then (Inr (), w)
      else andThen (getStock w)
        (\<lambda>stock w1.
           case groupSales sales [] of
             Inl e \<Rightarrow> (Inl e, w1)
           | Inr stockUpdates \<Rightarrow>
               andThen (reconcile (entries stockUpdates) stock [] w1)
                 (\<lambda>(stock1, movements) w2.
                    andThen (saveStock stock1 w2) (\<lambda>_ w3. addStockMovements movements w3))))"

subsection \<open>Batch import, migration, flags\<close>

definition importSalesToSupabase :: "sale list \<Rightarrow> unit io" where
  "importSalesToSupabase sales w =
     (if sales = [] then (Inr (), w)
      else viaSupabase (addMultipleSalesToSupabase sales)
             (\<lambda>w1. andThen (getSales w1)
                (\<lambda>existingSales w2. andThen (saveSales (existingSales @ sales) w2)
                   (\<lambda>_ w3. updateStockFromSales sales w3)))
             w)"

text \<open>\<open>migrateLocalStorageToSupabase\<close> (supabaseStorage.ts) copies each non-empty local
  collection to its table; any error, a rejected \<open>JSON.parse\<close> included, is thrown again
  as one error.\<close>

definition truthyList :: "'a list blob option \<Rightarrow> (error + 'a list) option" where
  "truthyList d = (if falsy d then None else case d of None \<Rightarrow> None | Some b \<Rightarrow> Some (JSON_parse b))"

definition migrateCollection :: "'a list blob option \<Rightarrow> ('a list \<Rightarrow> remote \<Rightarrow> (error + unit) \<times> remote) \<Rightarrow> unit io" where
  "migrateCollection d insertAll w =
     (case truthyList d of
        None \<Rightarrow> (Inr (), w)
      | Some (Inl e) \<Rightarrow> (Inl SupabaseError, w)
      | Some (Inr xs) \<Rightarrow> if length xs > 0 then onBackend (insertAll xs) w else (Inr (), w))"

definition insertMovements :: "stockMovement list \<Rightarrow> remote \<Rightarrow> (error + unit) \<times> remote" where
  "insertMovements ms r =
     (let (user, r1) = auth_getUser r in
      if user = None then (Inl SupabaseError, r1)
      else let (ok, r2) = request r1 in
           if ok then (Inr (), r2\<lparr>r_movements := r_movements r2 @ ms\<rparr>) else (Inl SupabaseError, r2))"

definition migrateLocalStorageToSupabase :: "unit io" where
  "migrateLocalStorageToSupabase w =
     (let salesData = ls_sales (store w);
          stockData = ls_stock (store w);
          movementsData = ls_movements (store w)
      in andThen (migrateCollection salesData addMultipleSalesToSupabase w)
           (\<lambda>_ w1. andThen (migrateCollection stockData addMultipleStockItemsToSupabase w1)
              (\<lambda>_ w2. migrateCollection movementsData insertMovements w2)))"


definition setReadOnlyMode :: "bool \<Rightarrow> world \<Rightarrow> world" where
  "setReadOnlyMode enabled w =
     w\<lparr>store := (store w)\<lparr>ls_readonly := Some (if enabled then ''true'' else ''false'')\<rparr>\<rparr>"

definition clearAllData :: "unit io" where
  "clearAllData w =
     (if isReadOnlyMode w then (Inl ReadOnlyError, w)
      else (Inr (), w\<lparr>store := (store w)\<lparr>ls_sales := None, ls_stock := None,
                                           ls_movements := None, ls_migrated := None\<rparr>\<rparr>))"


text \<open>The next \<open>n\<close> requests to the backend are served.\<close>

definition served :: "nat \<Rightarrow> remote \<Rightarrow> bool" where
  "served n r = list_all (\<lambda>b. b) (take n (r_outcomes r))"

text \<open>What the local parts of the three reads return.\<close>

definition localSales :: "world \<Rightarrow> sale list" where
  "localSales w = (case readLocal (ls_sales (store w)) of Inr xs \<Rightarrow> xs | Inl e \<Rightarrow> [])"

definition localStock :: "world \<Rightarrow> stockItem list" where
  "localStock w = (case readLocal (ls_stock (store w)) of Inr xs \<Rightarrow> xs | Inl e \<Rightarrow> [])"

definition localMovements :: "world \<Rightarrow> stockMovement list" where
  "localMovements w = (case readLocal (ls_movements (store w)) of Inr xs \<Rightarrow> xs | Inl e \<Rightarrow> [])"

text \<open>The facade in a signed-out session whose read-only flag is off.\<close>

definition offline :: "world \<Rightarrow> bool" where
  "offline w = (r_user (backend w) = None \<and> \<not> isReadOnlyMode w)"




text \<open>The tables of the backend and the session's user, without the bookkeeping of
  requests and identifiers.\<close>

definition remoteData :: "world \<Rightarrow> ustring option \<times> sale list \<times> stockItem list \<times> stockMovement list" where
  "remoteData w = (r_user (backend w), r_sales (backend w), r_stock (backend w), r_movements (backend w))"

section \<open>The import component: strings and numbers\<close>

text \<open>White space as \<open>trim\<close> and the class \<open>\s\<close> of a regular expression see it.\<close>

definition isSpace :: "nat \<Rightarrow> bool" where
  "isSpace c =
     (c \<in> set [9, 10, 11, 12, 13, 32, 160, 5760, 8232, 8233, 8239, 8287, 12288, 65279]
      \<or> (8192 \<le> c \<and> c \<le> 8202))"

definition trim :: "ustring \<Rightarrow> ustring" where
  "trim s = rev (dropWhile isSpace (rev (dropWhile isSpace s)))"

definition startsWith :: "ustring \<Rightarrow> ustring \<Rightarrow> bool" where
  "startsWith s p = (take (length p) s = p)"

text \<open>\<open>s.includes(t)\<close>: \<open>t\<close> occurs in \<open>s\<close>.\<close>

fun includes_str :: "ustring \<Rightarrow> ustring \<Rightarrow> bool" where
  "includes_str [] t = (t = [])"
| "includes_str (c # s) t = (startsWith (c # s) t \<or> includes_str s t)"

text \<open>\<open>s.replace(',', '.')\<close> with a string pattern replaces the first occurrence only.\<close>

fun replaceFirst :: "nat \<Rightarrow> nat \<Rightarrow> ustring \<Rightarrow> ustring" where
  "replaceFirst a b [] = []"
| "replaceFirst a b (c # s) = (if c = a then b # s else c # replaceFirst a b s)"

fun split_str :: "nat \<Rightarrow> ustring \<Rightarrow> ustring list" where
  "split_str sep [] = [[]]"
| "split_str sep (c # s) =
     (if c = sep then [] # split_str sep s
      else case split_str sep s of p # ps \<Rightarrow> (c # p) # ps | [] \<Rightarrow> [[c]])"

definition isDigit :: "nat \<Rightarrow> bool" where
  "isDigit c = (48 \<le> c \<and> c \<le> 57)"

text \<open>
  A sign, then the characters after it.
\<close>

definition scanSign :: "ustring \<Rightarrow> bool \<times> ustring" where
  "scanSign t =
     (case t of
        [] \<Rightarrow> (False, [])
      | c # r \<Rightarrow> if c = 45 then (True, r) else if c = 43 then (False, r) else (False, t))"

text \<open>An exponent part \<open>e\<close>, sign, digits, where it is complete; otherwise none is read.\<close>

definition scanExponent :: "ustring \<Rightarrow> int \<times> ustring" where
  "scanExponent r =
     (case r of
        [] \<Rightarrow> (0, r)
      | c # r1 \<Rightarrow>
          if c = 101 \<or> c = 69 then
            (let (neg, r2) = scanSign r1; ds = takeWhile isDigit r2 in
             if ds = [] then (0, r)
             else ((if neg then - int (decimalValue ds) else int (decimalValue ds)),
                   dropWhile isDigit r2))
          else (0, r))"

definition scale10 :: "number \<Rightarrow> int \<Rightarrow> number" where
  "scale10 v e = (if 0 \<le> e then v * 10 ^ nat e else v / 10 ^ nat (- e))"

text \<open>
  The longest prefix that is a decimal literal (sign, digits, fraction, exponent), its
  value and the rest of the string; none when there is no digit. The numbers of the model
  are finite: the literal \<open>Infinity\<close>, which JavaScript reads as a number, is read as not
  a number here.
\<close>

definition scanDecimal :: "ustring \<Rightarrow> (number \<times> ustring) option" where
  "scanDecimal t =
     (let (neg, t1) = scanSign t;
          ip = takeWhile isDigit t1;
          r1 = dropWhile isDigit t1;
          (fp, r2) = (case r1 of
                        [] \<Rightarrow> ([], r1)
                      | c # r \<Rightarrow> if c = 46 then (takeWhile isDigit r, dropWhile isDigit r)
                                 else ([], r1))
      in if ip = [] \<and> fp = [] then None
         else let (e, r3) = scanExponent r2;
                  v = scale10 (of_nat (decimalValue ip) + of_nat (decimalValue fp) / 10 ^ length fp) e
              in Some (if neg then - v else v, r3))"

text \<open>\<open>parseFloat\<close>: leading white space is skipped, what follows the literal is ignored;
  \<open>None\<close> is \<open>NaN\<close>.\<close>

definition parseFloat :: "ustring \<Rightarrow> number option" where
  "parseFloat s = map_option fst (scanDecimal (dropWhile isSpace s))"

definition digitValue :: "nat \<Rightarrow> nat" where
  "digitValue c =
     (if isDigit c then c - 48
      else if 97 \<le> c \<and> c \<le> 102 then c - 87
      else if 65 \<le> c \<and> c \<le> 70 then c - 55
      else 36)"

definition radixValue :: "nat \<Rightarrow> ustring \<Rightarrow> nat" where
  "radixValue b ds = foldl (\<lambda>a c. b * a + digitValue c) 0 ds"

text \<open>\<open>parseInt\<close>: white space, sign, \<open>0x\<close> for radix 16, then the longest run of
  digits; \<open>None\<close> is \<open>NaN\<close>.\<close>

definition parseInt :: "ustring \<Rightarrow> int option" where
  "parseInt s =
     (let (neg, t) = scanSign (dropWhile isSpace s);
          hex = (startsWith t [48, 120] \<or> startsWith t [48, 88]);
          b = (if hex then 16 else 10);
          ds = takeWhile (\<lambda>c. digitValue c < b) (if hex then drop 2 t else t)
      in if ds = [] then None
         else Some (if neg then - int (radixValue b ds) else int (radixValue b ds)))"



section \<open>The import component: dates\<close>

text \<open>
  A time value is a number of milliseconds since the epoch, or none for an invalid date.
  \<open>TimeClip\<close> rejects what lies beyond 8.64e15 and drops the fraction.
\<close>

definition timeClip :: "number \<Rightarrow> int option" where
  "timeClip t =
     (if \<bar>t\<bar> > 8640000000000000 then None
      else Some (if 0 \<le> t then \<lfloor>t\<rfloor> else \<lceil>t\<rceil>))"

text \<open>Days since the epoch of a civil date (month 1 to 12), and back.\<close>

definition daysFromCivil :: "int \<Rightarrow> int \<Rightarrow> int \<Rightarrow> int" where
  "daysFromCivil y m d =
     (let y1 = (if m \<le> 2 then y - 1 else y);
          era = y1 div 400;
          yoe = y1 - era * 400;
          doy = (153 * (if m > 2 then m - 3 else m + 9) + 2) div 5 + d - 1;
          doe = yoe * 365 + yoe div 4 - yoe div 100 + doy
      in era * 146097 + doe - 719468)"

definition civilFromDays :: "int \<Rightarrow> int \<times> int \<times> int" where
  "civilFromDays z0 =
     (let z = z0 + 719468;
          era = z div 146097;
          doe = z - era * 146097;
          yoe = (doe - doe div 1460 + doe div 36524 - doe div 146096) div 365;
          doy = doe - (365 * yoe + yoe div 4 - yoe div 100);
          mp = (5 * doy + 2) div 153;
          d = doy - (153 * mp + 2) div 5 + 1;
          m = (if mp < 10 then mp + 3 else mp - 9);
          y = yoe + era * 400
      in (if m \<le> 2 then y + 1 else y, m, d))"

text \<open>\<open>MakeDay\<close>: the month counts from zero and may lie outside a year.\<close>

definition makeDay :: "int \<Rightarrow> int \<Rightarrow> int \<Rightarrow> int" where
  "makeDay year month date = daysFromCivil (year + month div 12) (month mod 12 + 1) 1 + date - 1"

definition pad :: "nat \<Rightarrow> nat \<Rightarrow> ustring" where
  "pad n v = replicate (n - length (showNat v)) 48 @ showNat v"

text \<open>\<open>toISOString().split('T')[0]\<close>: the calendar date in UTC.\<close>

definition toISODate :: "int \<Rightarrow> ustring" where
  "toISODate t =
     (let (y, m, d) = civilFromDays (t div 86400000);
          year = (if 0 \<le> y \<and> y \<le> 9999 then pad 4 (nat y)
                  else (if y < 0 then [45] else [43]) @ pad 6 (nat \<bar>y\<bar>))
      in year @ [45] @ pad 2 (nat m) @ [45] @ pad 2 (nat d))"

text \<open>
  What the run-time environment decides: how \<open>new Date(string)\<close> reads a string that is
  not in a format the language fixes, the offset of local time from UTC (in
  milliseconds, at a given local time), how a number and a date print, and the
  identifiers \<open>crypto.randomUUID()\<close> hands out.
\<close>

record jsEnv =
  dateParse :: "ustring \<Rightarrow> int option"
  localOffset :: "int \<Rightarrow> int"
  numberToString :: "number \<Rightarrow> ustring"
  dateToString :: "int option \<Rightarrow> ustring"
  uuidOf :: "nat \<Rightarrow> ustring"

text \<open>\<open>new Date(year, month, day)\<close>: local midnight of that day; a year from 0 to 99 is
  taken in the twentieth century; \<open>NaN\<close> in any place gives an invalid date.\<close>

definition localDate :: "jsEnv \<Rightarrow> int option \<Rightarrow> int option \<Rightarrow> int option \<Rightarrow> int option" where
  "localDate env year month day =
     (case (year, month, day) of
        (Some y, Some m, Some d) \<Rightarrow>
          (let yr = (if 0 \<le> y \<and> y \<le> 99 then 1900 + y else y);
               t = makeDay yr m d * 86400000
           in timeClip (of_int (t - localOffset env t)))
      | _ \<Rightarrow> None)"

section \<open>The import component: cells, amounts, headers, rows\<close>

text \<open>A cell of a parsed sheet: a number, a string, a boolean, a date object (its time
  value), or \<open>null\<close>/\<open>undefined\<close>. A row lists its cells under their headers.\<close>

datatype cell = CNum number | CStr ustring | CBool bool | CDate "int option" | CNull


definition truthy :: "cell \<Rightarrow> bool" where
  "truthy v =
     (case v of CNum n \<Rightarrow> n \<noteq> 0 | CStr s \<Rightarrow> s \<noteq> [] | CBool b \<Rightarrow> b | CDate t \<Rightarrow> True
      | CNull \<Rightarrow> False)"

text \<open>\<open>value.toString()\<close>; it is never called on \<open>null\<close>.\<close>

definition cellToString :: "jsEnv \<Rightarrow> cell \<Rightarrow> ustring" where
  "cellToString env v =
     (case v of
        CStr s \<Rightarrow> s
      | CNum n \<Rightarrow> numberToString env n
      | CBool b \<Rightarrow> (if b then asc ''true'' else asc ''false'')
      | CDate t \<Rightarrow> dateToString env t
      | CNull \<Rightarrow> [])"


subsection \<open>parseAmount\<close>

text \<open>The string of an amount made ready for \<open>parseFloat\<close>: long dashes (8211) become
  minus signs, euro signs (8364) and white space go, the first comma becomes a period.\<close>

definition cleanAmount :: "ustring \<Rightarrow> ustring" where
  "cleanAmount s =
     replaceFirst 44 46
       (filter (\<lambda>c. \<not> isSpace c)
          (filter (\<lambda>c. c \<noteq> 8364)
             (map (\<lambda>c. if c = 8211 then 45 else c) (trim s))))"

definition parseAmount :: "jsEnv \<Rightarrow> cell \<Rightarrow> number" where
  "parseAmount env v =
     (case v of
        CNum n \<Rightarrow> n
      | _ \<Rightarrow> if \<not> truthy v then 0
             else (case parseFloat (cleanAmount (cellToString env v)) of
                     None \<Rightarrow> 0
                   | Some parsed \<Rightarrow> parsed))"

subsection \<open>normalizeHeaders\<close>

definition fieldMappings :: "(string \<times> ustring list) list" where
  "fieldMappings =
     [(''register'', [asc ''caisse'', asc ''register'', asc ''cash_register'', asc ''till'', asc ''pos'']),
      (''product'', [asc ''produit'', asc ''product'', asc ''item'', asc ''article'', asc ''nom'', asc ''name'']),
      (''type'', [asc ''types'', asc ''type'', asc ''category'', asc ''categorie'',
                  asc ''cat'' @ [233] @ asc ''gorie'']),
      (''quantity'', [asc ''quantit'' @ [233], asc ''quantite'', asc ''quantity'', asc ''qty'',
                      asc ''qte'', asc ''nb'']),
      (''amount'', [asc ''montant'', asc ''amount'', asc ''total'', asc ''prix'', asc ''price'',
                    asc ''value'', asc ''valeur'']),
      (''seller'', [asc ''vendeur'', asc ''seller'', asc ''salesperson'', asc ''employee'',
                    asc ''employe'', asc ''employ'' @ [233], asc ''staff'', asc ''user'',
                    asc ''utilisateur'']),
      (''date'', [asc ''date'', asc ''datetime'', asc ''timestamp'', asc ''time''])]"

text \<open>The chain of replacements applied to a lower-cased header and to every variation:
  accented vowels, c cedilla and n tilde lose their accent; underscores, white space and
  hyphens are removed.\<close>

definition foldAccent :: "nat \<Rightarrow> nat" where
  "foldAccent c =
     (if 224 \<le> c \<and> c \<le> 229 then 97
      else if 232 \<le> c \<and> c \<le> 235 then 101
      else if 236 \<le> c \<and> c \<le> 239 then 105
      else if 242 \<le> c \<and> c \<le> 246 then 111
      else if 249 \<le> c \<and> c \<le> 252 then 117
      else if c = 231 then 99
      else if c = 241 then 110
      else c)"

definition noise :: "nat \<Rightarrow> bool" where
  "noise c = (c = 95 \<or> isSpace c \<or> c = 45)"

definition normalizeVariation :: "ustring \<Rightarrow> ustring" where
  "normalizeVariation v = filter (\<lambda>c. \<not> noise c) (map foldAccent (toLowerCase v))"

definition lowerHeader :: "ustring \<Rightarrow> ustring" where
  "lowerHeader header = normalizeVariation (trim header)"

text \<open>An object used as a dictionary with keys of the program's own: an association list
  in the order of creation. \<open>!obj[key]\<close> holds when the key is absent or maps to the empty
  string.\<close>

definition assign :: "('k \<times> 'v) list \<Rightarrow> 'k \<Rightarrow> 'v \<Rightarrow> ('k \<times> 'v) list" where
  "assign obj k v =
     (if k \<in> fst ` set obj then map (\<lambda>(k', v'). if k' = k then (k', v) else (k', v')) obj
      else obj @ [(k, v)])"

definition mappedTo :: "(string \<times> ustring) list \<Rightarrow> string \<Rightarrow> bool" where
  "mappedTo normalized field = (case map_of normalized field of None \<Rightarrow> False | Some h \<Rightarrow> h \<noteq> [])"

definition fieldMatches :: "ustring \<Rightarrow> ustring list \<Rightarrow> bool" where
  "fieldMatches lh variations =
     list_ex (\<lambda>variation.
        let normalizedVariation = normalizeVariation variation in
        lh = normalizedVariation \<or> includes_str lh normalizedVariation
        \<or> includes_str normalizedVariation lh) variations"

text \<open>The loop over the fields for one header: the first field, in the order of the
  dictionary, that matches and is not yet mapped takes the header.\<close>

fun matchField :: "(string \<times> ustring list) list \<Rightarrow> ustring \<Rightarrow> ustring
    \<Rightarrow> (string \<times> ustring) list \<Rightarrow> (string \<times> ustring) list" where
  "matchField [] lh header normalized = normalized"
| "matchField ((internalField, variations) # rest) lh header normalized =
     (if fieldMatches lh variations \<and> \<not> mappedTo normalized internalField
      then assign normalized internalField header
      else matchField rest lh header normalized)"

definition skipped :: "ustring \<Rightarrow> bool" where
  "skipped header = (startsWith header (asc ''Unnamed:'') \<or> startsWith header (asc ''__EMPTY''))"

definition headerStep :: "(string \<times> ustring) list \<Rightarrow> ustring \<Rightarrow> (string \<times> ustring) list" where
  "headerStep normalized header =
     (if skipped header then normalized
      else matchField fieldMappings (lowerHeader header) header normalized)"

definition normalizeHeaders :: "ustring list \<Rightarrow> (string \<times> ustring) list" where
  "normalizeHeaders headers = foldl headerStep [] headers"

text \<open>The variations of a field, and the first field of the dictionary that matches a
  normalised header.\<close>

definition variantsOf :: "string \<Rightarrow> ustring list" where
  "variantsOf field = (case map_of fieldMappings field of None \<Rightarrow> [] | Some vs \<Rightarrow> vs)"

definition firstField :: "ustring \<Rightarrow> string option" where
  "firstField lh = map_option fst (find (\<lambda>(field, variations). fieldMatches lh variations) fieldMappings)"

text \<open>The test of \<open>fieldMatches\<close> on variations that are already normalised.\<close>

definition hits :: "ustring \<Rightarrow> ustring list \<Rightarrow> bool" where
  "hits lh nvs = list_ex (\<lambda>nv. lh = nv \<or> includes_str lh nv \<or> includes_str nv lh) nvs"

subsection \<open>detectAndMapColumns\<close>


subsection \<open>The date of a row\<close>

text \<open>The branch of \<open>validateSalesData\<close> that reads a date string.\<close>

definition monthIndex :: "int option \<Rightarrow> int option" where
  "monthIndex m = map_option (\<lambda>x. x - 1) m"

definition parseDateString :: "jsEnv \<Rightarrow> ustring \<Rightarrow> int option" where
  "parseDateString env dateStr =
     (if includes_str dateStr [47] then
        (case split_str 47 dateStr of
           [p0, p1, p2] \<Rightarrow> localDate env (parseInt p2) (monthIndex (parseInt p1)) (parseInt p0)
         | _ \<Rightarrow> dateParse env dateStr)
      else if includes_str dateStr [45] then
        (case split_str 45 dateStr of
           [p0, p1, p2] \<Rightarrow>
             if length p0 = 4 then dateParse env dateStr
             else localDate env (parseInt p2) (monthIndex (parseInt p1)) (parseInt p0)
         | _ \<Rightarrow> dateParse env dateStr)
      else dateParse env dateStr)"

text \<open>The outcome of the conversion: the formatted date, the explicit \<open>Date invalide\<close>
  exit, or the \<open>RangeError\<close> that \<open>toISOString\<close> throws on an invalid date.\<close>

datatype dateResult = DateOk ustring | DateInvalid | DateThrows

definition resolveDate :: "jsEnv \<Rightarrow> cell \<Rightarrow> dateResult" where
  "resolveDate env dateValue =
     (case dateValue of
        CNum n \<Rightarrow>
          (case timeClip ((n - 25569) * 86400 * 1000) of
             None \<Rightarrow> DateThrows
           | Some t \<Rightarrow> DateOk (toISODate t))
      | CDate d \<Rightarrow> (case d of None \<Rightarrow> DateThrows | Some t \<Rightarrow> DateOk (toISODate t))
      | _ \<Rightarrow>
          (case parseDateString env (cellToString env dateValue) of
             None \<Rightarrow> DateInvalid
           | Some t \<Rightarrow> DateOk (toISODate t)))"

subsection \<open>validateSalesData\<close>













definition requiredFields :: "string list" where
  "requiredFields = [''product'', ''quantity'', ''amount'', ''date'']"






section \<open>Duplicate detection (the import component)\<close>





section \<open>Example data\<close>

definition cola :: stockItem where
  "cola = \<lparr>item_id = asc ''2'', item_name = asc ''Coca-Cola'', item_category = asc ''Boissons'',
           subcategory = asc ''Sodas'', currentStock = 100, alertThreshold = 5,
           initialStock = 150, item_unitPrice = 3 / 2\<rparr>"

definition colaSale :: "string \<Rightarrow> number \<Rightarrow> sale" where
  "colaSale i q =
     \<lparr>sale_id = asc i, sale_date = asc ''2024-03-15'', clientName = asc ''Client Import'',
      productName = asc ''coca-cola'', sale_quantity = q, sale_unitPrice = 3 / 2,
      totalAmount = q * (3 / 2), paymentMethod = asc ''Carte'', sale_notes = Undefined,
      sale_seller = Val (asc ''Ana''), sale_register = Val (asc ''Caisse 1''),
      sale_category = Val (asc ''Boissons'')\<rparr>"

definition emptyStore :: localStorage where
  "emptyStore = \<lparr>ls_sales = None, ls_stock = None, ls_movements = None,
                  ls_readonly = None, ls_migrated = None\<rparr>"

definition emptyRemote :: remote where
  "emptyRemote = \<lparr>r_user = None, r_sales = [], r_stock = [], r_movements = [], r_outcomes = [],
                   r_uuid = (\<lambda>n. asc ''srv-'' @ showNat n), r_uuid_next = 0\<rparr>"

definition world0 :: world where
  "world0 = \<lparr>store = emptyStore, backend = emptyRemote,
              uuid = (\<lambda>n. asc ''id-'' @ showNat n), uuid_next = 0,
              now = asc ''2024-03-16T08:00:00.000Z''\<rparr>"

text \<open>A signed-out browser whose three collections are absent, empty and damaged.\<close>

definition damagedWorld :: world where
  "damagedWorld = world0\<lparr>store := emptyStore\<lparr>ls_stock := Some EmptyText, ls_movements := Some Corrupt\<rparr>\<rparr>"

text \<open>A signed-in session with the read-only flag set.\<close>

definition readOnlySession :: world where
  "readOnlySession =
     world0\<lparr>store := emptyStore\<lparr>ls_readonly := Some ''true''\<rparr>,
            backend := emptyRemote\<lparr>r_user := Some (asc ''u1''), r_stock := [cola]\<rparr>\<rparr>"

text \<open>A signed-in session whose local storage still holds a sale made before signing in,
  and whose delete request is about to fail (the second request; the first is the
  facade's authentication check).\<close>

definition staleSession :: world where
  "staleSession =
     world0\<lparr>store := emptyStore\<lparr>ls_sales := Some (Json [colaSale ''a'' 5])\<rparr>,
            backend := emptyRemote\<lparr>r_user := Some (asc ''u1''), r_sales := [colaSale ''b'' 3],
                                   r_outcomes := [True, False]\<rparr>\<rparr>"

text \<open>A signed-out browser with two sales in local storage, and a signed-in session with
  two sales in the remote table.\<close>

definition offlineShop :: world where
  "offlineShop = world0\<lparr>store := emptyStore\<lparr>ls_sales := Some (Json [colaSale ''a'' 5, colaSale ''c'' 3]),
                                               ls_stock := Some (Json [cola])\<rparr>\<rparr>"

definition onlineShop :: world where
  "onlineShop =
     world0\<lparr>backend := emptyRemote\<lparr>r_user := Some (asc ''u1''),
                                   r_sales := [colaSale ''a'' 5, colaSale ''c'' 3], r_stock := [cola]\<rparr>\<rparr>"

text \<open>A signed-out shop with two stock items whose names differ by case only, and with
  a stock item whose name is an inherited key of every object.\<close>

definition colaTwin :: stockItem where
  "colaTwin = cola\<lparr>item_id := asc ''9'', item_name := asc ''COCA-COLA'', currentStock := 50\<rparr>"



text \<open>An environment in UTC whose \<open>new Date(string)\<close> reads the ISO form
  \<open>YYYY-MM-DD\<close> and nothing else, and one an hour east of it.\<close>

definition isoDateParse :: "ustring \<Rightarrow> int option" where
  "isoDateParse s =
     (case split_str 45 s of
        [y, m, d] \<Rightarrow>
          if length y = 4 \<and> length m = 2 \<and> length d = 2 \<and> list_all isDigit (y @ m @ d)
             \<and> 1 \<le> decimalValue m \<and> decimalValue m \<le> 12
             \<and> 1 \<le> decimalValue d \<and> decimalValue d \<le> 31
          then Some (daysFromCivil (int (decimalValue y)) (int (decimalValue m)) (int (decimalValue d))
                     * 86400000)
          else None
      | _ \<Rightarrow> None)"

definition utcEnv :: jsEnv where
  "utcEnv = \<lparr>dateParse = isoDateParse, localOffset = (\<lambda>t. 0),
             numberToString = (\<lambda>n. (if n < 0 then [45] else []) @ showNat (nat \<lfloor>\<bar>n\<bar>\<rfloor>)),
             dateToString = (\<lambda>t. asc ''Invalid Date''),
             uuidOf = (\<lambda>n. asc ''sale-'' @ showNat n)\<rparr>"

definition parisEnv :: jsEnv where
  "parisEnv = utcEnv\<lparr>localOffset := (\<lambda>t. 3600000)\<rparr>"










section \<open>Verification\<close>


subsection \<open>Frame of a request, reads\<close>

lemma request_frame [simp]:
  "r_user (snd (request r)) = r_user r"
  "r_sales (snd (request r)) = r_sales r"
  "r_stock (snd (request r)) = r_stock r"
  "r_movements (snd (request r)) = r_movements r"
  "r_uuid (snd (request r)) = r_uuid r"
  "r_uuid_next (snd (request r)) = r_uuid_next r"
  by (simp_all add: request_def split: list.splits)

lemma auth_getUser_frame [simp]:
  "r_user (snd (auth_getUser r)) = r_user r"
  "r_sales (snd (auth_getUser r)) = r_sales r"
  "r_stock (snd (auth_getUser r)) = r_stock r"
  "r_movements (snd (auth_getUser r)) = r_movements r"
  "r_uuid (snd (auth_getUser r)) = r_uuid r"
  "r_uuid_next (snd (auth_getUser r)) = r_uuid_next r"
  by (simp_all add: auth_getUser_def split_beta)

lemma auth_getUser_signed_out: "r_user r = None \<Longrightarrow> fst (auth_getUser r) = None"
  by (simp add: auth_getUser_def split_beta)

lemma shouldUseSupabase_frame [simp]:
  "store (snd (shouldUseSupabase w)) = store w"
  "uuid (snd (shouldUseSupabase w)) = uuid w"
  "uuid_next (snd (shouldUseSupabase w)) = uuid_next w"
  "now (snd (shouldUseSupabase w)) = now w"
  "r_user (backend (snd (shouldUseSupabase w))) = r_user (backend w)"
  "r_sales (backend (snd (shouldUseSupabase w))) = r_sales (backend w)"
  "r_stock (backend (snd (shouldUseSupabase w))) = r_stock (backend w)"
  "r_movements (backend (snd (shouldUseSupabase w))) = r_movements (backend w)"
  by (simp_all add: shouldUseSupabase_def split_beta)

lemma shouldUseSupabase_signed_out:
  "r_user (backend w) = None \<Longrightarrow> fst (shouldUseSupabase w) = False"
  using auth_getUser_signed_out[of "backend w"]
  by (simp add: shouldUseSupabase_def split_beta)

lemma isReadOnlyMode_shouldUse [simp]: "isReadOnlyMode (snd (shouldUseSupabase w)) = isReadOnlyMode w"
  by (simp add: isReadOnlyMode_def)

lemma viaSupabase_signed_out:
  "r_user (backend w) = None \<Longrightarrow> viaSupabase op fb w = fb (snd (shouldUseSupabase w))"
  using shouldUseSupabase_signed_out[of w]
  by (simp add: viaSupabase_def split_beta)

lemma readLocal_total: "\<exists>xs. readLocal d = Inr xs"
  by (simp add: readLocal_def split: option.splits sum.splits)

lemma readLocal_empty:
  "d = None \<or> d = Some EmptyText \<or> d = Some Corrupt \<Longrightarrow> readLocal d = Inr []"
  by (auto simp: readLocal_def falsy_def JSON_parse_def)

lemma viaSupabase_read_total:
  "\<exists>xs. fst (viaSupabase op (\<lambda>w. (readLocal (f w), w)) w) = Inr xs"
  using readLocal_total
  by (auto simp: viaSupabase_def onBackend_def split: prod.splits sum.splits)

lemma reads_never_raise:
  "(\<exists>xs. fst (getSales w) = Inr xs) \<and> (\<exists>xs. fst (getStock w) = Inr xs)
   \<and> (\<exists>xs. fst (getStockMovements w) = Inr xs)"
  unfolding getSales_def getStock_def getStockMovements_def
  by (intro conjI viaSupabase_read_total)

text \<open>
  C10. In the signed-out (fallback) path the three reads return a list and never an
  error; where the backing key is absent, empty or holds a text that is not JSON, the
  list is empty.
\<close>

theorem local_reads_total:
  assumes "r_user (backend w) = None"
  shows "(\<exists>xs. fst (getSales w) = Inr xs)
       \<and> (\<exists>xs. fst (getStock w) = Inr xs)
       \<and> (\<exists>xs. fst (getStockMovements w) = Inr xs)
       \<and> (ls_sales (store w) = None \<or> ls_sales (store w) = Some EmptyText
            \<or> ls_sales (store w) = Some Corrupt \<longrightarrow> fst (getSales w) = Inr [])
       \<and> (ls_stock (store w) = None \<or> ls_stock (store w) = Some EmptyText
            \<or> ls_stock (store w) = Some Corrupt \<longrightarrow> fst (getStock w) = Inr [])
       \<and> (ls_movements (store w) = None \<or> ls_movements (store w) = Some EmptyText
            \<or> ls_movements (store w) = Some Corrupt \<longrightarrow> fst (getStockMovements w) = Inr [])"
proof -
  have sales: "fst (getSales w) = readLocal (ls_sales (store w))"
    by (simp add: getSales_def viaSupabase_signed_out[OF assms])
  have stock: "fst (getStock w) = readLocal (ls_stock (store w))"
    by (simp add: getStock_def viaSupabase_signed_out[OF assms])
  have movements: "fst (getStockMovements w) = readLocal (ls_movements (store w))"
    by (simp add: getStockMovements_def viaSupabase_signed_out[OF assms])
  show ?thesis
    unfolding sales stock movements
    by (intro conjI impI readLocal_total readLocal_empty)
qed

theorem local_reads_total_witness:
  "r_user (backend damagedWorld) = None
   \<and> ls_sales (store damagedWorld) = None
   \<and> ls_stock (store damagedWorld) = Some EmptyText
   \<and> ls_movements (store damagedWorld) = Some Corrupt
   \<and> fst (getSales damagedWorld) = Inr []
   \<and> fst (getStock damagedWorld) = Inr []
   \<and> fst (getStockMovements damagedWorld) = Inr []"
proof -
  have u: "r_user (backend damagedWorld) = None"
    by (simp add: damagedWorld_def world0_def emptyRemote_def)
  have s: "ls_sales (store damagedWorld) = None" "ls_stock (store damagedWorld) = Some EmptyText"
    "ls_movements (store damagedWorld) = Some Corrupt"
    by (simp_all add: damagedWorld_def emptyStore_def)
  from local_reads_total[OF u] s u show ?thesis by simp
qed


subsection \<open>Read-only mode\<close>

text \<open>Every operation that starts with the check of the flag throws before it reads or
  writes anything.\<close>

lemma readOnly_blocks:
  assumes "isReadOnlyMode w"
  shows "addSale s w = (Inl ReadOnlyError, w)"
    and "updateSale s w = (Inl ReadOnlyError, w)"
    and "deleteSale i w = (Inl ReadOnlyError, w)"
    and "addStockItem it w = (Inl ReadOnlyError, w)"
    and "updateStockItem it w = (Inl ReadOnlyError, w)"
    and "deleteStockItem i w = (Inl ReadOnlyError, w)"
    and "addStockMovement m w = (Inl ReadOnlyError, w)"
    and "saveSales ss w = (Inl ReadOnlyError, w)"
    and "saveStock its w = (Inl ReadOnlyError, w)"
    and "clearAllData w = (Inl ReadOnlyError, w)"
  using assms
  by (simp_all add: addSale_def updateSale_def deleteSale_def addStockItem_def updateStockItem_def
      deleteStockItem_def addStockMovement_def saveSales_def saveStock_def clearAllData_def)

lemma readOnlySession_flag: "isReadOnlyMode readOnlySession"
  by (simp add: readOnlySession_def isReadOnlyMode_def emptyStore_def)

lemma readOnlySession_auth:
  "shouldUseSupabase readOnlySession = (True, readOnlySession)"
  by (simp add: shouldUseSupabase_def auth_getUser_def request_def readOnlySession_def
      world0_def emptyRemote_def)

text \<open>
  C7. With the persisted read-only flag set, every mutating operation of the facade is
  to raise an error and leave sales, stock items and movements unchanged.
  \<open>importSalesToSupabase\<close> does not check the flag: in a signed-in read-only session it
  inserts the batch into the remote sales table and returns normally, and on an empty
  batch it returns normally as well.
\<close>

theorem importSalesToSupabase_ignores_readOnly:
  "isReadOnlyMode readOnlySession
   \<and> r_sales (backend readOnlySession) = []
   \<and> fst (importSalesToSupabase [colaSale ''s1'' 5] readOnlySession) = Inr ()
   \<and> r_sales (backend (snd (importSalesToSupabase [colaSale ''s1'' 5] readOnlySession)))
       = [colaSale ''s1'' 5]
   \<and> importSalesToSupabase [] readOnlySession = (Inr (), readOnlySession)"
proof -
  have b: "backend readOnlySession = emptyRemote\<lparr>r_user := Some (asc ''u1''), r_stock := [cola]\<rparr>"
    by (simp add: readOnlySession_def world0_def)
  have ins: "addMultipleSalesToSupabase [colaSale ''s1'' 5] (backend readOnlySession)
      = (Inr (), insert_sales [colaSale ''s1'' 5] (backend readOnlySession))"
    by (simp add: b addMultipleSalesToSupabase_def auth_getUser_def request_def emptyRemote_def)
  have sales: "r_sales (insert_sales [colaSale ''s1'' 5] (backend readOnlySession)) = [colaSale ''s1'' 5]"
    by (simp add: b insert_sales_def update_stock_on_sale_def Let_def emptyRemote_def)
  have run: "importSalesToSupabase [colaSale ''s1'' 5] readOnlySession
      = (Inr (), readOnlySession\<lparr>backend := insert_sales [colaSale ''s1'' 5] (backend readOnlySession)\<rparr>)"
    by (simp add: importSalesToSupabase_def viaSupabase_def readOnlySession_auth onBackend_def ins)
  have none: "importSalesToSupabase [] readOnlySession = (Inr (), readOnlySession)"
    by (simp add: importSalesToSupabase_def)
  have before: "r_sales (backend readOnlySession) = []"
    by (simp add: b emptyRemote_def)
  show ?thesis
    unfolding run none by (simp add: sales before readOnlySession_flag)
qed


subsection \<open>Deleting a sale\<close>

text \<open>The three ways through the facade's pattern.\<close>

lemma viaSupabase_cases:
  fixes w :: world and op :: "remote \<Rightarrow> (error + 'a) \<times> remote"
  defines "w1 \<equiv> snd (shouldUseSupabase w)"
  defines "w2 \<equiv> w1\<lparr>backend := snd (op (backend w1))\<rparr>"
  obtains (remote) v where "fst (shouldUseSupabase w)" and "fst (op (backend w1)) = Inr v"
      and "viaSupabase op fb w = (Inr v, w2)"
  | (failed) e where "fst (shouldUseSupabase w)" and "fst (op (backend w1)) = Inl e"
      and "viaSupabase op fb w = fb w2"
  | (local) "\<not> fst (shouldUseSupabase w)" and "viaSupabase op fb w = fb w1"
proof (cases "fst (shouldUseSupabase w)")
  case False
  then have "viaSupabase op fb w = fb w1"
    by (simp add: viaSupabase_def split_beta w1_def)
  with False show ?thesis by (rule local)
next
  case True
  show ?thesis
  proof (cases "fst (op (backend w1))")
    case (Inl e)
    with True have "viaSupabase op fb w = fb w2"
      by (simp add: viaSupabase_def onBackend_def split_beta w1_def w2_def)
    with True Inl show ?thesis by (rule failed)
  next
    case (Inr v)
    with True have "viaSupabase op fb w = (Inr v, w2)"
      by (simp add: viaSupabase_def onBackend_def split_beta w1_def w2_def)
    with True Inr show ?thesis by (rule remote)
  qed
qed

lemma remoteData_shouldUse [simp]: "remoteData (snd (shouldUseSupabase w)) = remoteData w"
  by (simp add: remoteData_def)

lemma served_request: "served (Suc n) r \<Longrightarrow> fst (request r) \<and> served n (snd (request r))"
  by (auto simp: served_def request_def split: list.splits)

lemma served_auth:
  "served (Suc n) r \<Longrightarrow> fst (auth_getUser r) = r_user r \<and> served n (snd (auth_getUser r))"
  using served_request[of n r] by (simp add: auth_getUser_def split_beta)

lemma served_shouldUse:
  "served (Suc n) (backend w) \<Longrightarrow> r_user (backend w) \<noteq> None
   \<Longrightarrow> fst (shouldUseSupabase w) \<and> served n (backend (snd (shouldUseSupabase w)))"
  using served_auth[of n "backend w"] by (simp add: shouldUseSupabase_def split_beta)

lemma getSalesFromSupabase_frame [simp]:
  "r_user (snd (getSalesFromSupabase r)) = r_user r"
  "r_sales (snd (getSalesFromSupabase r)) = r_sales r"
  "r_stock (snd (getSalesFromSupabase r)) = r_stock r"
  "r_movements (snd (getSalesFromSupabase r)) = r_movements r"
  by (simp_all add: getSalesFromSupabase_def split_beta)

lemma getSales_frame [simp]:
  "store (snd (getSales w)) = store w"
  "remoteData (snd (getSales w)) = remoteData w"
  "isReadOnlyMode (snd (getSales w)) = isReadOnlyMode w"
  by (simp_all add: getSales_def viaSupabase_def onBackend_def split_beta remoteData_def
      isReadOnlyMode_def split: sum.splits)

lemma getSales_returns: "\<exists>xs. fst (getSales w) = Inr xs"
  using reads_never_raise by blast

lemma getSales_signed_out:
  "r_user (backend w) = None \<Longrightarrow> fst (getSales w) = Inr (localSales w)"
  using readLocal_total[of "ls_sales (store w)"]
  by (auto simp: getSales_def viaSupabase_signed_out localSales_def)

lemma saveSales_frame [simp]:
  "ls_stock (store (snd (saveSales xs w))) = ls_stock (store w)"
  "ls_movements (store (snd (saveSales xs w))) = ls_movements (store w)"
  "ls_readonly (store (snd (saveSales xs w))) = ls_readonly (store w)"
  "ls_migrated (store (snd (saveSales xs w))) = ls_migrated (store w)"
  "remoteData (snd (saveSales xs w)) = remoteData w"
  by (simp_all add: saveSales_def split_beta remoteData_def)

lemma saveSales_writes:
  "\<not> isReadOnlyMode w \<Longrightarrow> fst (saveSales xs w) = Inr ()
     \<and> ls_sales (store (snd (saveSales xs w))) = Some (Json xs)"
  by (simp add: saveSales_def split_beta)

lemma deleteSaleFromSupabase_frame [simp]:
  "r_user (snd (deleteSaleFromSupabase i r)) = r_user r"
  "r_stock (snd (deleteSaleFromSupabase i r)) = r_stock r"
  "r_movements (snd (deleteSaleFromSupabase i r)) = r_movements r"
  by (simp_all add: deleteSaleFromSupabase_def split_beta)

lemma deleteSaleFromSupabase_served:
  "served (Suc n) r \<Longrightarrow> fst (deleteSaleFromSupabase i r) = Inr ()
     \<and> r_sales (snd (deleteSaleFromSupabase i r)) = filter (\<lambda>s. sale_id s \<noteq> i) (r_sales r)"
  using served_request[of n r] by (simp add: deleteSaleFromSupabase_def split_beta)

text \<open>The local fallback of \<open>deleteSale\<close>.\<close>

lemma deleteSale_fallback_frame:
  fixes i :: ustring
  defines "fb \<equiv> (\<lambda>w1. andThen (getSales w1) (\<lambda>sales w2. saveSales (filter (\<lambda>s. sale_id s \<noteq> i) sales) w2))"
  shows "ls_stock (store (snd (fb w))) = ls_stock (store w)"
    and "ls_movements (store (snd (fb w))) = ls_movements (store w)"
    and "remoteData (snd (fb w)) = remoteData w"
proof -
  obtain xs where xs: "fst (getSales w) = Inr xs" using getSales_returns by blast
  then have run: "fb w = saveSales (filter (\<lambda>s. sale_id s \<noteq> i) xs) (snd (getSales w))"
    by (cases "getSales w") (simp add: fb_def andThen_def)
  show "ls_stock (store (snd (fb w))) = ls_stock (store w)"
    and "ls_movements (store (snd (fb w))) = ls_movements (store w)"
    and "remoteData (snd (fb w)) = remoteData w"
    by (simp_all add: run)
qed

lemma deleteSale_stock_untouched:
  "ls_stock (store (snd (deleteSale i w))) = ls_stock (store w)
   \<and> ls_movements (store (snd (deleteSale i w))) = ls_movements (store w)
   \<and> r_stock (backend (snd (deleteSale i w))) = r_stock (backend w)
   \<and> r_movements (backend (snd (deleteSale i w))) = r_movements (backend w)"
proof (cases "isReadOnlyMode w")
  case True
  then show ?thesis by (simp add: deleteSale_def)
next
  case False
  let ?w1 = "snd (shouldUseSupabase w)"
  let ?r = "deleteSaleFromSupabase i (backend ?w1)"
  let ?w2 = "?w1\<lparr>backend := snd ?r\<rparr>"
  let ?fb = "\<lambda>w1. andThen (getSales w1) (\<lambda>sales w2. saveSales (filter (\<lambda>s. sale_id s \<noteq> i) sales) w2)"
  have w2: "store ?w2 = store w" "r_stock (backend ?w2) = r_stock (backend w)"
    "r_movements (backend ?w2) = r_movements (backend w)"
    by simp_all
  have fbd: "r_stock (backend (snd (?fb v))) = r_stock (backend v)
      \<and> r_movements (backend (snd (?fb v))) = r_movements (backend v)" for v
    using deleteSale_fallback_frame(3)[where i=i and w="v"] by (simp add: remoteData_def)
  have ds: "deleteSale i w = viaSupabase (deleteSaleFromSupabase i) ?fb w"
    using False by (simp add: deleteSale_def)
  consider (remote) "snd (deleteSale i w) = ?w2" | (local2) "snd (deleteSale i w) = snd (?fb ?w2)"
    | (local1) "snd (deleteSale i w) = snd (?fb ?w1)"
    unfolding ds by (rule viaSupabase_cases[of w "deleteSaleFromSupabase i" ?fb]) simp_all
  then show ?thesis
  proof cases
    case remote
    then show ?thesis using w2 by simp
  next
    case local2
    then show ?thesis
      using deleteSale_fallback_frame(1,2)[where i=i and w="?w2"] fbd[of ?w2] w2 by simp
  next
    case local1
    then show ?thesis
      using deleteSale_fallback_frame(1,2)[where i=i and w="?w1"] fbd[of ?w1] by simp
  qed
qed

lemma deleteSale_signed_out:
  assumes "\<not> isReadOnlyMode w" and "r_user (backend w) = None"
  shows "fst (deleteSale i w) = Inr ()
     \<and> ls_sales (store (snd (deleteSale i w))) = Some (Json (filter (\<lambda>s. sale_id s \<noteq> i) (localSales w)))
     \<and> r_sales (backend (snd (deleteSale i w))) = r_sales (backend w)"
proof -
  let ?w1 = "snd (shouldUseSupabase w)"
  have u1: "r_user (backend ?w1) = None" using assms(2) by simp
  have g: "fst (getSales ?w1) = Inr (localSales w)"
    using getSales_signed_out[OF u1] by (simp add: localSales_def)
  have ro: "\<not> isReadOnlyMode (snd (getSales ?w1))" using assms(1) by simp
  have run: "deleteSale i w = saveSales (filter (\<lambda>s. sale_id s \<noteq> i) (localSales w)) (snd (getSales ?w1))"
    using assms g
    by (cases "getSales ?w1") (simp add: deleteSale_def viaSupabase_signed_out andThen_def)
  have rd: "remoteData (snd (deleteSale i w)) = remoteData w"
    unfolding run by simp
  show ?thesis
    using saveSales_writes[OF ro] rd unfolding run by (simp add: remoteData_def)
qed

lemma deleteSale_remote:
  assumes "\<not> isReadOnlyMode w" and "r_user (backend w) \<noteq> None" and "served 2 (backend w)"
  shows "fst (deleteSale i w) = Inr ()
     \<and> r_sales (backend (snd (deleteSale i w))) = filter (\<lambda>s. sale_id s \<noteq> i) (r_sales (backend w))
     \<and> ls_sales (store (snd (deleteSale i w))) = ls_sales (store w)"
proof -
  let ?w1 = "snd (shouldUseSupabase w)"
  have s2: "served (Suc 1) (backend w)" using assms(3) by (simp add: numeral_2_eq_2)
  from served_shouldUse[OF s2 assms(2)]
  have auth: "fst (shouldUseSupabase w)" and s1: "served (Suc 0) (backend ?w1)" by simp_all
  from deleteSaleFromSupabase_served[OF s1, of i]
  have d: "fst (deleteSaleFromSupabase i (backend ?w1)) = Inr ()"
    "r_sales (snd (deleteSaleFromSupabase i (backend ?w1))) = filter (\<lambda>s. sale_id s \<noteq> i) (r_sales (backend w))"
    by simp_all
  have run: "deleteSale i w = (Inr (), ?w1\<lparr>backend := snd (deleteSaleFromSupabase i (backend ?w1))\<rparr>)"
    using assms(1) auth d(1)
    by (simp add: deleteSale_def viaSupabase_def onBackend_def split_beta)
  show ?thesis unfolding run using d(2) by simp
qed


text \<open>
  C8 (amended). \<open>deleteSale\<close> never changes a stock item or the movement log, in local
  storage or in the backend: no stock is given back and no \<open>in\<close> movement is logged. With
  the read-only flag set it throws and changes nothing. In a signed-out session it stores
  the local sales without those of the given identifier and leaves the remote table
  alone; in a signed-in session whose two requests are served it deletes the rows of that
  identifier from the remote table and leaves the local sales alone.
\<close>

theorem deleteSale_frame:
  "ls_stock (store (snd (deleteSale i w))) = ls_stock (store w)
   \<and> ls_movements (store (snd (deleteSale i w))) = ls_movements (store w)
   \<and> r_stock (backend (snd (deleteSale i w))) = r_stock (backend w)
   \<and> r_movements (backend (snd (deleteSale i w))) = r_movements (backend w)
   \<and> (isReadOnlyMode w \<longrightarrow> deleteSale i w = (Inl ReadOnlyError, w))
   \<and> (\<not> isReadOnlyMode w \<and> r_user (backend w) = None \<longrightarrow>
        fst (deleteSale i w) = Inr ()
        \<and> ls_sales (store (snd (deleteSale i w)))
            = Some (Json (filter (\<lambda>s. sale_id s \<noteq> i) (localSales w)))
        \<and> r_sales (backend (snd (deleteSale i w))) = r_sales (backend w))
   \<and> (\<not> isReadOnlyMode w \<and> r_user (backend w) \<noteq> None \<and> served 2 (backend w) \<longrightarrow>
        fst (deleteSale i w) = Inr ()
        \<and> r_sales (backend (snd (deleteSale i w)))
            = filter (\<lambda>s. sale_id s \<noteq> i) (r_sales (backend w))
        \<and> ls_sales (store (snd (deleteSale i w))) = ls_sales (store w))"
  using deleteSale_stock_untouched[of i w] deleteSale_signed_out[of w i]
    deleteSale_remote[of w i] readOnly_blocks(3)[of w i]
  by blast

lemma colaSale_id [simp]: "sale_id (colaSale i q) = asc i"
  by (simp add: colaSale_def)

lemma asc_simps: "asc [] = []" "asc (c # cs) = of_char c # asc cs"
  by (simp_all add: asc_def)

theorem deleteSale_frame_witness:
  "r_user (backend offlineShop) = None \<and> \<not> isReadOnlyMode offlineShop
   \<and> localSales offlineShop = [colaSale ''a'' 5, colaSale ''c'' 3]
   \<and> fst (deleteSale (asc ''a'') offlineShop) = Inr ()
   \<and> ls_sales (store (snd (deleteSale (asc ''a'') offlineShop))) = Some (Json [colaSale ''c'' 3])
   \<and> ls_stock (store (snd (deleteSale (asc ''a'') offlineShop))) = Some (Json [cola])
   \<and> r_user (backend onlineShop) \<noteq> None \<and> \<not> isReadOnlyMode onlineShop \<and> served 2 (backend onlineShop)
   \<and> fst (deleteSale (asc ''a'') onlineShop) = Inr ()
   \<and> r_sales (backend (snd (deleteSale (asc ''a'') onlineShop))) = [colaSale ''c'' 3]
   \<and> r_stock (backend (snd (deleteSale (asc ''a'') onlineShop))) = [cola]
   \<and> isReadOnlyMode readOnlySession
   \<and> deleteSale (asc ''a'') readOnlySession = (Inl ReadOnlyError, readOnlySession)"
proof -
  have off: "r_user (backend offlineShop) = None" "\<not> isReadOnlyMode offlineShop"
    "localSales offlineShop = [colaSale ''a'' 5, colaSale ''c'' 3]"
    "ls_stock (store offlineShop) = Some (Json [cola])"
    by (simp_all add: offlineShop_def world0_def emptyRemote_def emptyStore_def isReadOnlyMode_def
        localSales_def readLocal_def falsy_def JSON_parse_def)
  have on: "r_user (backend onlineShop) \<noteq> None" "\<not> isReadOnlyMode onlineShop"
    "served 2 (backend onlineShop)" "r_sales (backend onlineShop) = [colaSale ''a'' 5, colaSale ''c'' 3]"
    "r_stock (backend onlineShop) = [cola]"
    by (simp_all add: onlineShop_def world0_def emptyRemote_def emptyStore_def isReadOnlyMode_def
        served_def)
  show ?thesis
    using deleteSale_frame[of "asc ''a''" offlineShop] deleteSale_frame[of "asc ''a''" onlineShop]
      deleteSale_frame[of "asc ''a''" readOnlySession] off on readOnlySession_flag
    by (simp add: asc_simps)
qed

text \<open>
  C8 as stated (every state, at most the sale of that identifier leaves the collection)
  fails where the session is signed in and the delete request is refused: the fallback
  reads the sales through \<open>getSales\<close>, which answers from the backend, and stores them
  locally. The sale kept in local storage is lost and a remote one takes its place,
  although neither has the identifier that was to be deleted.
\<close>

theorem deleteSale_overwrites_local:
  "\<not> isReadOnlyMode staleSession
   \<and> localSales staleSession = [colaSale ''a'' 5]
   \<and> sale_id (colaSale ''a'' 5) \<noteq> asc ''zzz''
   \<and> fst (deleteSale (asc ''zzz'') staleSession) = Inr ()
   \<and> localSales (snd (deleteSale (asc ''zzz'') staleSession)) = [colaSale ''b'' 3]
   \<and> colaSale ''a'' 5 \<notin> set (localSales (snd (deleteSale (asc ''zzz'') staleSession)))"
proof -
  let ?r0 = "emptyRemote\<lparr>r_user := Some (asc ''u1''), r_sales := [colaSale ''b'' 3]\<rparr>"
  let ?st = "emptyStore\<lparr>ls_sales := Some (Json [colaSale ''a'' 5])\<rparr>"
  let ?w = "\<lambda>outs. world0\<lparr>store := ?st, backend := ?r0\<lparr>r_outcomes := outs\<rparr>\<rparr>"
  have w: "staleSession = ?w [True, False]"
    by (simp add: staleSession_def)
  have ro: "\<not> isReadOnlyMode (?w outs)" for outs
    by (simp add: isReadOnlyMode_def emptyStore_def)
  have auth1: "shouldUseSupabase (?w [True, False]) = (True, ?w [False])"
    by (simp add: shouldUseSupabase_def auth_getUser_def request_def emptyRemote_def)
  have del: "onBackend (deleteSaleFromSupabase (asc ''zzz'')) (?w [False]) = (Inl SupabaseError, ?w [])"
    by (simp add: onBackend_def deleteSaleFromSupabase_def request_def emptyRemote_def)
  have auth2: "shouldUseSupabase (?w []) = (True, ?w [])"
    by (simp add: shouldUseSupabase_def auth_getUser_def request_def emptyRemote_def)
  have sel: "onBackend getSalesFromSupabase (?w []) = (Inr [colaSale ''b'' 3], ?w [])"
    by (simp add: onBackend_def getSalesFromSupabase_def request_def emptyRemote_def)
  have get: "getSales (?w []) = (Inr [colaSale ''b'' 3], ?w [])"
    by (simp add: getSales_def viaSupabase_def auth2 sel)
  have save: "saveSales [colaSale ''b'' 3] (?w [])
      = (Inr (), (?w [])\<lparr>store := ?st\<lparr>ls_sales := Some (Json [colaSale ''b'' 3])\<rparr>\<rparr>)"
    using ro[of "[]"] by (simp add: saveSales_def auth2)
  have idb: "asc ''b'' \<noteq> asc ''zzz''"
    by (simp add: asc_simps)
  have run: "deleteSale (asc ''zzz'') staleSession
      = (Inr (), (?w [])\<lparr>store := ?st\<lparr>ls_sales := Some (Json [colaSale ''b'' 3])\<rparr>\<rparr>)"
    unfolding w using ro[of "[True, False]"] idb
    by (simp add: deleteSale_def viaSupabase_def auth1 del andThen_def get save)
  have before: "localSales staleSession = [colaSale ''a'' 5]"
    by (simp add: w localSales_def readLocal_def falsy_def JSON_parse_def emptyStore_def)
  have after: "localSales (snd (deleteSale (asc ''zzz'') staleSession)) = [colaSale ''b'' 3]"
    unfolding run by (simp add: localSales_def readLocal_def falsy_def JSON_parse_def emptyStore_def)
  have diff: "colaSale ''a'' 5 \<noteq> colaSale ''b'' 3"
    by (simp add: colaSale_def)
  have ids: "sale_id (colaSale ''a'' 5) \<noteq> asc ''zzz''"
    by (simp add: asc_simps)
  show ?thesis
    unfolding after before using ro[of "[True, False]"] run diff ids by (simp add: w)
qed


subsection \<open>Migration\<close>



lemma migrateCollection_store [simp]: "store (snd (migrateCollection d ins w)) = store w"
  by (simp add: migrateCollection_def onBackend_def split_beta split: option.splits sum.splits)

lemma migrateLocalStorageToSupabase_store [simp]:
  "store (snd (migrateLocalStorageToSupabase w)) = store w"
proof -
  have step: "store (snd (andThen m f)) = store (snd m)"
    if "\<And>v u. store (snd (f v u)) = store u" for m :: "(error + unit) \<times> world" and f :: "unit \<Rightarrow> unit io"
    using that by (cases m) (auto simp: andThen_def split: sum.splits)
  show ?thesis
    unfolding migrateLocalStorageToSupabase_def Let_def
    by (simp add: step)
qed




subsection \<open>Duplicate detection\<close>




subsection \<open>Stock reconciliation\<close>



lemma named_dec [simp]: "named k (it\<lparr>currentStock := c\<rparr>) = named k it"
  by (simp add: named_def)








lemma entries_set [simp]: "set (entries obj) = set obj"
  by (auto simp: entries_def)




lemma importMovement_item:
  "item_id it' = item_id it \<Longrightarrow> importMovement u d it' q ss f = importMovement u d it q ss f"
  by (simp add: importMovement_def)




lemma offline_shouldUse [simp]: "offline (snd (shouldUseSupabase w)) = offline w"
  by (simp add: offline_def)



lemma localMovements_Json [simp]:
  "ls_movements (store w) = Some (Json ms) \<Longrightarrow> localMovements w = ms"
  by (simp add: localMovements_def readLocal_def falsy_def JSON_parse_def)

lemma localStock_Json [simp]:
  "ls_stock (store w) = Some (Json xs) \<Longrightarrow> localStock w = xs"
  by (simp add: localStock_def readLocal_def falsy_def JSON_parse_def)











lemma lower_coca [simp]:
  "toLowerCase (asc ''coca-cola'') = asc ''coca-cola''"
  "toLowerCase (asc ''Coca-Cola'') = asc ''coca-cola''"
  "toLowerCase (asc ''COCA-COLA'') = asc ''coca-cola''"
  by (simp_all add: toLowerCase_def lowerUnit_def asc_simps)

lemma coca_not_inherited [simp]: "asc ''coca-cola'' \<notin> set inheritedKeys"
  by (simp add: inheritedKeys_def asc_simps)

lemma coca_not_index [simp]: "\<not> isArrayIndex (asc ''coca-cola'')"
  by (simp add: isArrayIndex_def asc_simps)

lemma colaSale_fields [simp]:
  "productName (colaSale i q) = asc ''coca-cola''"
  "sale_quantity (colaSale i q) = q"
  "sale_register (colaSale i q) = Val (asc ''Caisse 1'')"
  "sale_seller (colaSale i q) = Val (asc ''Ana'')"
  by (simp_all add: colaSale_def)

lemma cola_fields [simp]:
  "item_name cola = asc ''Coca-Cola''" "item_id cola = asc ''2''" "currentStock cola = 100"
  "item_name colaTwin = asc ''COCA-COLA''" "item_id colaTwin = asc ''9''" "currentStock colaTwin = 50"
  by (simp_all add: cola_def colaTwin_def)








subsection \<open>Amounts\<close>

lemma digit_facts:
  "isDigit c \<Longrightarrow> \<not> isSpace c \<and> c \<noteq> 8211 \<and> c \<noteq> 8364 \<and> c \<noteq> 44 \<and> c \<noteq> 45 \<and> c \<noteq> 43 \<and> c \<noteq> 46"
  by (auto simp: isDigit_def isSpace_def)

lemma space_facts: "isSpace c \<Longrightarrow> c \<noteq> 8211 \<and> c \<noteq> 8364"
  by (auto simp: isSpace_def)

lemma dropWhile_hd: "xs \<noteq> [] \<Longrightarrow> \<not> P (hd xs) \<Longrightarrow> dropWhile P xs = xs"
  by (cases xs) auto

lemma trim_id: "s \<noteq> [] \<Longrightarrow> \<not> isSpace (hd s) \<Longrightarrow> \<not> isSpace (last s) \<Longrightarrow> trim s = s"
  by (simp add: trim_def dropWhile_hd hd_rev)

lemma replaceFirst_digits:
  "\<forall>c \<in> set ds. c \<noteq> a \<Longrightarrow> replaceFirst a b (ds @ a # rest) = ds @ b # rest"
  by (induction ds) auto

lemma map_dash_keep: "\<forall>c \<in> set xs. c \<noteq> 8211 \<Longrightarrow> map (\<lambda>c. if c = 8211 then 45 else c) xs = xs"
  by (induction xs) auto

lemma filter_keep: "\<forall>c \<in> set xs. P c \<Longrightarrow> filter P xs = xs"
  by (induction xs) auto

lemma filter_drop: "\<forall>c \<in> set xs. \<not> P c \<Longrightarrow> filter P xs = []"
  by (induction xs) auto

lemma cleanAmount_euro:
  assumes ds: "ds \<noteq> []" "\<forall>c \<in> set ds. isDigit c" and d: "isDigit d1" "isDigit d2"
    and ws: "\<forall>c \<in> set ws. isSpace c"
  shows "cleanAmount ((if neg then [8211] else []) @ ds @ [44, d1, d2] @ ws @ [8364])
       = (if neg then [45] else []) @ ds @ [46, d1, d2]"
proof -
  let ?s = "(if neg then [8211] else []) @ ds @ [44, d1, d2] @ ws @ [8364]"
  have nsp8211: "\<not> isSpace 8211" "\<not> isSpace 8364" "\<not> isSpace 44" "\<not> isSpace 45"
    by (simp_all add: isSpace_def)
  have hd: "\<not> isSpace (hd ?s)"
    using ds digit_facts[of "hd ds"] nsp8211 by (cases ds) auto
  have "trim ?s = ?s"
    using hd nsp8211 by (intro trim_id) auto
  moreover have "map (\<lambda>c. if c = 8211 then 45 else c) ?s
      = (if neg then [45] else []) @ ds @ [44, d1, d2] @ ws @ [8364]"
    using ds d ws digit_facts space_facts by (auto simp: map_dash_keep)
  moreover have "filter (\<lambda>c. c \<noteq> 8364) ((if neg then [45] else []) @ ds @ [44, d1, d2] @ ws @ [8364])
      = (if neg then [45] else []) @ ds @ [44, d1, d2] @ ws"
    using ds d ws digit_facts space_facts by (auto simp: filter_keep)
  moreover have "filter (\<lambda>c. \<not> isSpace c) ((if neg then [45] else []) @ ds @ [44, d1, d2] @ ws)
      = (if neg then [45] else []) @ ds @ [44, d1, d2]"
    using ds d ws digit_facts nsp8211 by (auto simp: filter_keep filter_drop)
  moreover have "replaceFirst 44 46 ((if neg then [45] else []) @ ds @ [44, d1, d2])
      = (if neg then [45] else []) @ ds @ [46, d1, d2]"
    using replaceFirst_digits[of ds 44 46 "[d1, d2]"] ds(2) digit_facts by auto
  ultimately show ?thesis by (simp add: cleanAmount_def)
qed

lemma scanDecimal_fixed:
  assumes ds: "ds \<noteq> []" "\<forall>c \<in> set ds. isDigit c" and d: "isDigit d1" "isDigit d2"
  shows "scanDecimal ((if neg then [45] else []) @ ds @ [46, d1, d2])
       = Some ((if neg then - 1 else 1)
                 * (of_nat (decimalValue ds) + of_nat (decimalValue [d1, d2]) / 100), [])"
proof -
  have sign: "scanSign ((if neg then [45] else []) @ ds @ [46, d1, d2]) = (neg, ds @ [46, d1, d2])"
    using ds digit_facts[of "hd ds"] by (cases ds) (auto simp: scanSign_def)
  have nd: "\<not> isDigit 46" by (simp add: isDigit_def)
  have ip: "takeWhile isDigit (ds @ [46, d1, d2]) = ds"
    using ds(2) nd by (simp add: takeWhile_append2)
  have r1: "dropWhile isDigit (ds @ [46, d1, d2]) = [46, d1, d2]"
    using ds(2) nd by (simp add: dropWhile_append2)
  show ?thesis
    using ds(1) d by (simp add: scanDecimal_def sign ip r1 scanExponent_def scale10_def)
qed

text \<open>
  C3. For every string made of an optional long dash, an integer part of one or more
  digits, a comma, two digits, white space and the euro sign, \<open>parseAmount\<close> returns the
  signed decimal number written; a number is returned as it is; for any other string the
  result is what \<open>parseFloat\<close> reads in the cleaned string (long dashes to minus signs,
  euro signs and white space removed, first comma to a period), and 0 where it reads no
  number.
\<close>

theorem parseAmount_euro_format:
  "(ds \<noteq> [] \<and> (\<forall>c \<in> set ds. isDigit c) \<and> isDigit d1 \<and> isDigit d2 \<and> (\<forall>c \<in> set ws. isSpace c)
      \<longrightarrow> parseAmount env (CStr ((if neg then [8211] else []) @ ds @ [44, d1, d2] @ ws @ [8364]))
          = (if neg then - 1 else 1)
              * (of_nat (decimalValue ds) + of_nat (decimalValue [d1, d2]) / 100))
   \<and> parseAmount env (CNum n) = n
   \<and> parseAmount env (CStr s)
       = (if s = [] then 0
          else case parseFloat (cleanAmount s) of None \<Rightarrow> 0 | Some parsed \<Rightarrow> parsed)
   \<and> (parseFloat (cleanAmount s) = None \<longrightarrow> parseAmount env (CStr s) = 0)"
proof -
  have gen: "parseAmount env (CStr s)
       = (if s = [] then 0
          else case parseFloat (cleanAmount s) of None \<Rightarrow> 0 | Some parsed \<Rightarrow> parsed)" for s
    by (simp add: parseAmount_def truthy_def cellToString_def)
  have fmt: "parseAmount env (CStr ((if neg then [8211] else []) @ ds @ [44, d1, d2] @ ws @ [8364]))
          = (if neg then - 1 else 1)
              * (of_nat (decimalValue ds) + of_nat (decimalValue [d1, d2]) / 100)"
    if a: "ds \<noteq> []" "\<forall>c \<in> set ds. isDigit c" "isDigit d1" "isDigit d2" "\<forall>c \<in> set ws. isSpace c"
  proof -
    have nsp: "\<not> isSpace 45" by (simp add: isSpace_def)
    have first: "dropWhile isSpace ((if neg then [45] else []) @ ds @ [46, d1, d2])
        = (if neg then [45] else []) @ ds @ [46, d1, d2]"
      using a(1,2) digit_facts[of "hd ds"] nsp by (cases ds) auto
    show ?thesis
      unfolding gen cleanAmount_euro[OF a]
      using a(1) by (simp add: parseFloat_def first scanDecimal_fixed[OF a(1-4)])
  qed
  show ?thesis
    using gen[of s] fmt by (simp add: parseAmount_def)
qed

lemma decimalValue_154: "decimalValue [49, 53, 52] = 154" "decimalValue [48, 48] = 0"
  "decimalValue [52, 53] = 45" "decimalValue [50, 48] = 20"
  by (simp_all add: decimalValue_def)

theorem parseAmount_euro_format_witness:
  "parseAmount utcEnv (CStr (asc ''154,00 '' @ [8364])) = 154
   \<and> parseAmount utcEnv (CStr ([8211] @ asc ''45,20'' @ [160, 8364])) = - (226 / 5)
   \<and> parseAmount utcEnv (CStr (asc ''abc'')) = 0
   \<and> parseAmount utcEnv (CNum (7 / 2)) = 7 / 2"
proof -
  have a: "parseAmount utcEnv (CStr ((if False then [8211] else []) @ [49, 53, 52] @ [44, 48, 48] @ [32] @ [8364])) = 154"
    using parseAmount_euro_format[of "[49, 53, 52]" 48 48 "[32]" utcEnv False 0 "[]"]
    by (simp add: isDigit_def isSpace_def decimalValue_154)
  have b: "parseAmount utcEnv (CStr ((if True then [8211] else []) @ [52, 53] @ [44, 50, 48] @ [160] @ [8364])) = - (226 / 5)"
    using parseAmount_euro_format[of "[52, 53]" 50 48 "[160]" utcEnv True 0 "[]"]
    by (simp add: isDigit_def isSpace_def decimalValue_154)
  have clean: "cleanAmount (asc ''abc'') = asc ''abc''"
    by (simp add: cleanAmount_def trim_def asc_simps isSpace_def)
  have nan: "parseFloat (asc ''abc'') = None"
    by (simp add: parseFloat_def scanDecimal_def scanSign_def asc_simps isSpace_def isDigit_def)
  have c: "parseAmount utcEnv (CStr (asc ''abc'')) = 0"
    using parseAmount_euro_format[of "[]" 0 0 "[]" utcEnv False 0 "asc ''abc''"] by (simp add: clean nan)
  have d: "parseAmount utcEnv (CNum (7 / 2)) = 7 / 2"
    using parseAmount_euro_format[of "[]" 0 0 "[]" utcEnv False "7 / 2" "[]"] by simp
  from a b c d show ?thesis by (simp add: asc_simps)
qed


subsection \<open>Headers\<close>

lemma map_of_assign_same: "map_of (assign m k v) k = Some v"
proof (cases "k \<in> fst ` set m")
  case False
  then have "map_of m k = None" by (simp add: map_of_eq_None_iff)
  with False show ?thesis by (simp add: assign_def map_add_def)
next
  case True
  then have "map_of (map (\<lambda>(k', v'). if k' = k then (k', v) else (k', v')) m) k = Some v"
    by (induction m) auto
  with True show ?thesis by (simp add: assign_def)
qed

lemma map_of_assign_other: "k' \<noteq> k \<Longrightarrow> map_of (assign m k v) k' = map_of m k'"
proof -
  assume ne: "k' \<noteq> k"
  have "map_of (map (\<lambda>(a, b). if a = k then (a, v) else (a, b)) m) k' = map_of m k'"
    using ne by (induction m) auto
  with ne show ?thesis by (simp add: assign_def map_add_def split: option.splits)
qed

lemma values_assign: "snd ` set (assign m k v) \<subseteq> insert v (snd ` set m)"
  by (auto simp: assign_def split: if_splits)

lemma matchField_keep:
  "mappedTo m F \<Longrightarrow> map_of (matchField fm lh h m) F = map_of m F"
proof (induction fm)
  case Nil
  then show ?case by simp
next
  case (Cons fv fm)
  obtain f vs where fv: "fv = (f, vs)" by (cases fv)
  show ?case
  proof (cases "fieldMatches lh vs \<and> \<not> mappedTo m f")
    case True
    with Cons.prems have "F \<noteq> f" by auto
    with True show ?thesis by (simp add: fv map_of_assign_other)
  next
    case False
    then have "matchField (fv # fm) lh h m = matchField fm lh h m"
      by (auto simp: fv)
    with Cons show ?thesis by simp
  qed
qed

lemma matchField_hit:
  "find (\<lambda>(f, vs). fieldMatches lh vs) fm = Some (F, vs) \<Longrightarrow> h \<noteq> []
   \<Longrightarrow> mappedTo (matchField fm lh h m) F"
proof (induction fm)
  case Nil
  then show ?case by simp
next
  case (Cons fv fm)
  obtain f vs' where fv: "fv = (f, vs')" by (cases fv)
  show ?case
  proof (cases "fieldMatches lh vs'")
    case False
    with Cons show ?thesis by (simp add: fv)
  next
    case True
    with Cons.prems(1) have here: "f = F" by (simp add: fv)
    show ?thesis
    proof (cases "mappedTo m F")
      case True
      from matchField_keep[OF True, of fm lh h] True
      have "mappedTo (matchField fm lh h m) F" by (simp add: mappedTo_def)
      with True show ?thesis by (simp add: fv here)
    next
      case False
      with \<open>fieldMatches lh vs'\<close> Cons.prems(2) show ?thesis
        by (simp add: fv here mappedTo_def map_of_assign_same)
    qed
  qed
qed

lemma matchField_values:
  "snd ` set (matchField fm lh h m) \<subseteq> insert h (snd ` set m)"
proof (induction fm)
  case Nil
  then show ?case by auto
next
  case (Cons fv fm)
  obtain f vs where fv: "fv = (f, vs)" by (cases fv)
  show ?case using Cons values_assign[of m f h] by (simp add: fv)
qed

lemma headerStep_keep: "mappedTo m F \<Longrightarrow> map_of (headerStep m h) F = map_of m F"
  by (simp add: headerStep_def matchField_keep)

lemma headerStep_values: "snd ` set (headerStep m h) \<subseteq> insert h (snd ` set m)"
  using matchField_values[of fieldMappings "lowerHeader h" h m] by (auto simp: headerStep_def)

lemma fold_keep: "mappedTo m F \<Longrightarrow> map_of (foldl headerStep m hs) F = map_of m F"
proof (induction hs arbitrary: m)
  case Nil
  then show ?case by simp
next
  case (Cons h hs)
  have same: "map_of (headerStep m h) F = map_of m F" using Cons.prems by (rule headerStep_keep)
  then have "mappedTo (headerStep m h) F" using Cons.prems by (simp add: mappedTo_def)
  from Cons.IH[OF this] same show ?case by simp
qed

lemma fold_values: "snd ` set (foldl headerStep m hs) \<subseteq> snd ` set m \<union> set hs"
proof (induction hs arbitrary: m)
  case Nil
  then show ?case by simp
next
  case (Cons h hs)
  from Cons.IH[of "headerStep m h"] headerStep_values[of m h] show ?case by auto
qed

text \<open>White space is removed with the other noise, so the \<open>trim\<close> of the header does
  not show in the comparison.\<close>

lemma space_range: "isSpace c \<Longrightarrow> c \<le> 32 \<or> c = 160 \<or> 5760 \<le> c"
  unfolding isSpace_def by (elim disjE) (simp_all, presburger)

lemma space_is_noise: "isSpace c \<Longrightarrow> noise (foldAccent (lowerUnit c))"
proof -
  assume sp: "isSpace c"
  from space_range[OF sp] have "lowerUnit c = c"
    by (auto simp: lowerUnit_def)
  moreover from space_range[OF sp] have "foldAccent c = c"
    by (auto simp: foldAccent_def)
  ultimately show ?thesis using sp by (simp add: noise_def)
qed

lemma filter_map_dropWhile:
  "(\<And>c. P c \<Longrightarrow> \<not> Q (g c)) \<Longrightarrow> filter Q (map g (dropWhile P xs)) = filter Q (map g xs)"
  by (induction xs) auto

lemma lowerHeader_eq: "lowerHeader h = normalizeVariation h"
proof -
  let ?Q = "\<lambda>c. \<not> noise c"
  let ?g = "\<lambda>c. foldAccent (lowerUnit c)"
  have dw: "filter ?Q (map ?g (dropWhile isSpace xs)) = filter ?Q (map ?g xs)" for xs
    by (rule filter_map_dropWhile) (simp add: space_is_noise)
  have "filter ?Q (map ?g (trim h)) = rev (filter ?Q (map ?g (dropWhile isSpace (rev (dropWhile isSpace h)))))"
    by (simp add: trim_def rev_map rev_filter)
  also have "\<dots> = rev (filter ?Q (map ?g (rev (dropWhile isSpace h))))"
    by (simp only: dw)
  also have "\<dots> = filter ?Q (map ?g (dropWhile isSpace h))"
    by (simp add: rev_map rev_filter)
  also have "\<dots> = filter ?Q (map ?g h)"
    by (rule dw)
  finally show ?thesis
    by (simp add: lowerHeader_def normalizeVariation_def toLowerCase_def comp_def)
qed

lemma startsWith_split: "startsWith h p \<Longrightarrow> h = p @ drop (length p) h"
proof -
  assume "startsWith h p"
  then have "take (length p) h = p" by (simp add: startsWith_def)
  then have "take (length p) h @ drop (length p) h = p @ drop (length p) h" by simp
  then show ?thesis by simp
qed

lemma normalizeVariation_Cons:
  "normalizeVariation (c # s) =
     (if noise (foldAccent (lowerUnit c)) then normalizeVariation s
      else foldAccent (lowerUnit c) # normalizeVariation s)"
  by (simp add: normalizeVariation_def toLowerCase_def)

lemma unit_facts:
  "foldAccent (lowerUnit 85) = 117" "\<not> noise 117"
  "noise (foldAccent (lowerUnit 95))"
  "foldAccent (lowerUnit 69) = 101" "\<not> noise 101"
  by (simp_all add: foldAccent_def lowerUnit_def noise_def isSpace_def)

lemma lowerHeader_Unnamed: "hd (lowerHeader (asc ''Unnamed:'' @ rest)) = 117"
  "lowerHeader (asc ''Unnamed:'' @ rest) \<noteq> []"
  by (simp_all add: lowerHeader_eq asc_simps normalizeVariation_Cons unit_facts)

lemma lowerHeader_EMPTY: "hd (lowerHeader (asc ''__EMPTY'' @ rest)) = 101"
  "lowerHeader (asc ''__EMPTY'' @ rest) \<noteq> []"
  by (simp_all add: lowerHeader_eq asc_simps normalizeVariation_Cons unit_facts)

lemma skipped_head:
  assumes "skipped h"
  shows "lowerHeader h \<noteq> [] \<and> hd (lowerHeader h) \<in> {117, 101}"
proof (cases "startsWith h (asc ''Unnamed:'')")
  case True
  from startsWith_split[OF True] lowerHeader_Unnamed[of "drop (length (asc ''Unnamed:'')) h"]
  show ?thesis by simp
next
  case False
  with assms have "startsWith h (asc ''__EMPTY'')" by (simp add: skipped_def)
  from startsWith_split[OF this] lowerHeader_EMPTY[of "drop (length (asc ''__EMPTY'')) h"]
  show ?thesis by simp
qed


lemma startsWith_simps:
  "startsWith s [] = True"
  "startsWith [] (d # t) = False"
  "startsWith (c # s) (d # t) = (c = d \<and> startsWith s t)"
  by (auto simp: startsWith_def)

lemma normalizeVariation_Nil: "normalizeVariation [] = []"
  by (simp add: normalizeVariation_def toLowerCase_def)

lemma lower_letter:
  "97 \<le> c \<Longrightarrow> c \<le> 122 \<Longrightarrow> foldAccent (lowerUnit c) = c \<and> \<not> noise c"
  by (simp add: foldAccent_def lowerUnit_def noise_def isSpace_def)

lemma normalizeVariation_letters:
  "list_all (\<lambda>c. 97 \<le> c \<and> c \<le> 122) v \<Longrightarrow> normalizeVariation v = v"
  by (induction v) (simp_all add: normalizeVariation_Nil normalizeVariation_Cons lower_letter)

lemma normalizeVariation_append:
  "normalizeVariation (a @ b) = normalizeVariation a @ normalizeVariation b"
  by (simp add: normalizeVariation_def toLowerCase_def)

lemma special_units:
  "normalizeVariation [233] = [101]" "normalizeVariation [95] = []"
  by (simp_all add: normalizeVariation_def toLowerCase_def foldAccent_def lowerUnit_def noise_def isSpace_def)

lemma nv_letter: "97 \<le> c \<Longrightarrow> c \<le> 122 \<Longrightarrow> normalizeVariation (c # s) = c # normalizeVariation s"
  by (simp add: normalizeVariation_Cons lower_letter)

lemma nv_special:
  "normalizeVariation (233 # s) = 101 # normalizeVariation s"
  "normalizeVariation (95 # s) = normalizeVariation s"
  using special_units normalizeVariation_append[of "[233]" s] normalizeVariation_append[of "[95]" s]
  by simp_all

lemma normalized_dictionary:
  "map (\<lambda>(f, vs). (f, map normalizeVariation vs)) fieldMappings =
     [(''register'', [asc ''caisse'', asc ''register'', asc ''cashregister'', asc ''till'', asc ''pos'']),
      (''product'', [asc ''produit'', asc ''product'', asc ''item'', asc ''article'', asc ''nom'', asc ''name'']),
      (''type'', [asc ''types'', asc ''type'', asc ''category'', asc ''categorie'', asc ''categorie'']),
      (''quantity'', [asc ''quantite'', asc ''quantite'', asc ''quantity'', asc ''qty'', asc ''qte'', asc ''nb'']),
      (''amount'', [asc ''montant'', asc ''amount'', asc ''total'', asc ''prix'', asc ''price'',
                    asc ''value'', asc ''valeur'']),
      (''seller'', [asc ''vendeur'', asc ''seller'', asc ''salesperson'', asc ''employee'',
                    asc ''employe'', asc ''employe'', asc ''staff'', asc ''user'', asc ''utilisateur'']),
      (''date'', [asc ''date'', asc ''datetime'', asc ''timestamp'', asc ''time''])]"
  unfolding fieldMappings_def
  by (simp add: asc_simps nv_letter nv_special normalizeVariation_Nil)


lemma fieldMatches_hits: "fieldMatches lh vs = hits lh (map normalizeVariation vs)"
  by (simp add: fieldMatches_def hits_def list_ex_iff Let_def)

lemma firstField_hits:
  "firstField lh = map_option fst (find (\<lambda>(f, nvs). hits lh nvs)
      (map (\<lambda>(f, vs). (f, map normalizeVariation vs)) fieldMappings))"
proof -
  have "map_option fst (find (\<lambda>(f, nvs). hits lh nvs) (map (\<lambda>(f, vs). (f, map normalizeVariation vs)) fm))
      = map_option fst (find (\<lambda>(f, vs). fieldMatches lh vs) fm)" for fm
    by (induction fm) (auto simp: fieldMatches_hits)
  from this[of fieldMappings, symmetric] show ?thesis unfolding firstField_def .
qed

lemma product_first:
  "list_all (\<lambda>lh. firstField lh = Some ''product'')
     [asc ''produit'', asc ''product'', asc ''item'', asc ''article'', asc ''nom'', asc ''name'']"
  unfolding firstField_hits normalized_dictionary
  by (simp add: hits_def asc_simps startsWith_simps)

lemma quantity_first:
  "list_all (\<lambda>lh. firstField lh = Some ''quantity'')
     [asc ''quantite'', asc ''quantity'', asc ''qty'', asc ''qte'', asc ''nb'']"
  unfolding firstField_hits normalized_dictionary
  by (simp add: hits_def asc_simps startsWith_simps)


lemma amount_first:
  "list_all (\<lambda>lh. firstField lh = Some ''amount'')
     [asc ''montant'', asc ''amount'', asc ''total'', asc ''prix'', asc ''price'', asc ''value'',
      asc ''valeur'']"
  unfolding firstField_hits normalized_dictionary
  by (simp add: hits_def asc_simps startsWith_simps)

lemma date_first:
  "list_all (\<lambda>lh. firstField lh = Some ''date'')
     [asc ''date'', asc ''datetime'', asc ''timestamp'', asc ''time'']"
  unfolding firstField_hits normalized_dictionary
  by (simp add: hits_def asc_simps startsWith_simps)

lemma required_variants:
  "map normalizeVariation (variantsOf ''product'')
     = [asc ''produit'', asc ''product'', asc ''item'', asc ''article'', asc ''nom'', asc ''name'']"
  "map normalizeVariation (variantsOf ''quantity'')
     = [asc ''quantite'', asc ''quantite'', asc ''quantity'', asc ''qty'', asc ''qte'', asc ''nb'']"
  "map normalizeVariation (variantsOf ''amount'')
     = [asc ''montant'', asc ''amount'', asc ''total'', asc ''prix'', asc ''price'', asc ''value'',
        asc ''valeur'']"
  "map normalizeVariation (variantsOf ''date'')
     = [asc ''date'', asc ''datetime'', asc ''timestamp'', asc ''time'']"
  by (simp_all add: variantsOf_def fieldMappings_def asc_simps nv_letter nv_special normalizeVariation_Nil)

lemma required_variant:
  assumes "F \<in> set requiredFields" and "v \<in> set (variantsOf F)"
  shows "firstField (normalizeVariation v) = Some F \<and> normalizeVariation v \<noteq> []
     \<and> hd (normalizeVariation v) \<noteq> 117 \<and> hd (normalizeVariation v) \<noteq> 101"
proof -
  have nv: "normalizeVariation v \<in> set (map normalizeVariation (variantsOf F))"
    using assms(2) by simp
  from assms(1) consider "F = ''product''" | "F = ''quantity''" | "F = ''amount''" | "F = ''date''"
    by (auto simp: requiredFields_def)
  then show ?thesis
  proof cases
    case 1
    from nv product_first show ?thesis
      unfolding 1 required_variants by (auto simp: asc_simps)
  next
    case 2
    from nv quantity_first show ?thesis
      unfolding 2 required_variants by (auto simp: asc_simps)
  next
    case 3
    from nv amount_first show ?thesis
      unfolding 3 required_variants by (auto simp: asc_simps)
  next
    case 4
    from nv date_first show ?thesis
      unfolding 4 required_variants by (auto simp: asc_simps)
  qed
qed


text \<open>\<open>includes_str\<close> is containment as a substring.\<close>

lemma startsWith_iff: "startsWith s t \<longleftrightarrow> (\<exists>b. s = t @ b)"
proof
  assume "startsWith s t"
  from startsWith_split[OF this] show "\<exists>b. s = t @ b" by blast
next
  assume "\<exists>b. s = t @ b"
  then show "startsWith s t" by (auto simp: startsWith_def)
qed

lemma includes_str_iff: "includes_str s t \<longleftrightarrow> (\<exists>a b. s = a @ t @ b)"
proof (induction s)
  case Nil
  then show ?case by simp
next
  case (Cons c s)
  show ?case
  proof
    assume "includes_str (c # s) t"
    then consider "startsWith (c # s) t" | "includes_str s t" by auto
    then show "\<exists>a b. c # s = a @ t @ b"
    proof cases
      case 1
      then obtain b where "c # s = t @ b" unfolding startsWith_iff by blast
      then have "c # s = [] @ t @ b" by simp
      then show ?thesis by blast
    next
      case 2
      with Cons obtain a b where "s = a @ t @ b" by blast
      then have "c # s = (c # a) @ t @ b" by simp
      then show ?thesis by blast
    qed
  next
    assume "\<exists>a b. c # s = a @ t @ b"
    then obtain a b where ab: "c # s = a @ t @ b" by blast
    show "includes_str (c # s) t"
    proof (cases a)
      case Nil
      with ab have "startsWith (c # s) t" unfolding startsWith_iff by auto
      then show ?thesis by simp
    next
      case (Cons x a')
      with ab have "s = a' @ t @ b" by simp
      with Cons.IH show ?thesis by auto
    qed
  qed
qed

lemma matchField_empty:
  "matchField fm lh h [] =
     (case map_option fst (find (\<lambda>(f, vs). fieldMatches lh vs) fm) of None \<Rightarrow> [] | Some f \<Rightarrow> [(f, h)])"
  by (induction fm) (auto simp: mappedTo_def assign_def)

lemma normalizeHeaders_skip:
  "foldl headerStep m (filter (\<lambda>h. \<not> skipped h) hs) = foldl headerStep m hs"
  by (induction hs arbitrary: m) (auto simp: headerStep_def)

lemma headerStep_hit:
  assumes "F \<in> set requiredFields" and "v \<in> set (variantsOf F)"
    and "lowerHeader h = normalizeVariation v"
  shows "mappedTo (headerStep m h) F"
proof -
  from required_variant[OF assms(1,2)]
  have ff: "firstField (lowerHeader h) = Some F" and ne: "lowerHeader h \<noteq> []"
    and hd: "hd (lowerHeader h) \<noteq> 117" "hd (lowerHeader h) \<noteq> 101"
    by (simp_all add: assms(3))
  have ns: "\<not> skipped h" using skipped_head[of h] hd by auto
  have "lowerHeader [] = []" by (simp add: lowerHeader_eq normalizeVariation_Nil)
  with ne have hne: "h \<noteq> []" by auto
  from ff obtain fv where fnd: "find (\<lambda>(f, vs). fieldMatches (lowerHeader h) vs) fieldMappings = Some fv"
    and "fst fv = F"
    by (auto simp: firstField_def)
  then have "find (\<lambda>(f, vs). fieldMatches (lowerHeader h) vs) fieldMappings = Some (F, snd fv)"
    by (cases fv) simp
  from matchField_hit[OF this hne, of m] ns show ?thesis by (simp add: headerStep_def)
qed

text \<open>
  C4. Where the list of headers holds, for a required field (product, quantity, amount,
  date), a header equal to one of the field's variations once both are normalised (lower
  case, accents folded, white space, underscores and hyphens removed), wherever it stands
  in the list, the mapping returned has that field, mapped to a header of the list as it
  was given. A field that is mapped keeps its header whatever headers follow (the first
  wins); headers starting with \<open>Unnamed:\<close> or \<open>__EMPTY\<close> change nothing; a match is an
  equality or a containment either way; and a lone header goes to the first field of the
  dictionary that it matches.
\<close>

theorem normalizeHeaders_required:
  "(F \<in> set requiredFields \<and> v \<in> set (variantsOf F) \<and> h \<in> set headers
      \<and> lowerHeader h = normalizeVariation v
      \<longrightarrow> (\<exists>h'. map_of (normalizeHeaders headers) F = Some h' \<and> h' \<in> set headers \<and> h' \<noteq> []))
   \<and> (mappedTo (normalizeHeaders hs1) F
      \<longrightarrow> map_of (normalizeHeaders (hs1 @ hs2)) F = map_of (normalizeHeaders hs1) F)
   \<and> (skipped h \<longrightarrow> headerStep m h = m)
   \<and> normalizeHeaders (filter (\<lambda>h. \<not> skipped h) headers) = normalizeHeaders headers
   \<and> (fieldMatches lh vs \<longleftrightarrow>
        (\<exists>x \<in> set vs. lh = normalizeVariation x
                      \<or> (\<exists>a b. lh = a @ normalizeVariation x @ b)
                      \<or> (\<exists>a b. normalizeVariation x = a @ lh @ b)))
   \<and> (\<not> skipped h \<longrightarrow>
        normalizeHeaders [h] = (case firstField (lowerHeader h) of None \<Rightarrow> [] | Some f \<Rightarrow> [(f, h)]))"
proof -
  have cover: "\<exists>h'. map_of (normalizeHeaders headers) F = Some h' \<and> h' \<in> set headers \<and> h' \<noteq> []"
    if a: "F \<in> set requiredFields" "v \<in> set (variantsOf F)" "h \<in> set headers"
      "lowerHeader h = normalizeVariation v"
  proof -
    from a(3) obtain hs1 hs2 where sp: "headers = hs1 @ h # hs2"
      by (auto dest: split_list)
    let ?m1 = "foldl headerStep [] hs1"
    have hit: "mappedTo (headerStep ?m1 h) F" using a(1,2,4) by (rule headerStep_hit)
    have "map_of (normalizeHeaders headers) F = map_of (headerStep ?m1 h) F"
      unfolding normalizeHeaders_def sp using fold_keep[OF hit, of hs2] by simp
    with hit obtain h' where h': "map_of (normalizeHeaders headers) F = Some h'" "h' \<noteq> []"
      by (auto simp: mappedTo_def split: option.splits)
    from h'(1) have "(F, h') \<in> set (normalizeHeaders headers)" by (rule map_of_SomeD)
    then have "h' \<in> snd ` set (normalizeHeaders headers)" by force
    with fold_values[of "[]" headers] have "h' \<in> set headers"
      by (auto simp: normalizeHeaders_def)
    with h' show ?thesis by blast
  qed
  have stable: "map_of (normalizeHeaders (hs1 @ hs2)) F = map_of (normalizeHeaders hs1) F"
    if "mappedTo (normalizeHeaders hs1) F"
    using fold_keep[OF that[unfolded normalizeHeaders_def], of hs2] by (simp add: normalizeHeaders_def)
  have skip: "headerStep m h = m" if "skipped h"
    using that by (simp add: headerStep_def)
  have filt: "normalizeHeaders (filter (\<lambda>h. \<not> skipped h) headers) = normalizeHeaders headers"
    by (simp add: normalizeHeaders_def normalizeHeaders_skip)
  have rule: "fieldMatches lh vs \<longleftrightarrow>
        (\<exists>x \<in> set vs. lh = normalizeVariation x
                      \<or> (\<exists>a b. lh = a @ normalizeVariation x @ b)
                      \<or> (\<exists>a b. normalizeVariation x = a @ lh @ b))"
    by (simp add: fieldMatches_def list_ex_iff Let_def includes_str_iff)
  have lone: "normalizeHeaders [h] = (case firstField (lowerHeader h) of None \<Rightarrow> [] | Some f \<Rightarrow> [(f, h)])"
    if "\<not> skipped h"
    using that by (simp add: normalizeHeaders_def headerStep_def matchField_empty firstField_def)
  from cover stable skip filt rule lone show ?thesis by blast
qed


theorem normalizeHeaders_required_witness:
  "''quantity'' \<in> set requiredFields
   \<and> asc ''quantit'' @ [233] \<in> set (variantsOf ''quantity'')
   \<and> lowerHeader (asc '' QUANTIT'' @ [201, 32]) = normalizeVariation (asc ''quantit'' @ [233])
   \<and> (\<exists>h'. map_of (normalizeHeaders [asc ''Unnamed: 0'', asc ''Date'', asc '' QUANTIT'' @ [201, 32],
                                          asc ''Prix'', asc ''Nom'']) ''quantity'' = Some h'
            \<and> h' \<in> set [asc ''Unnamed: 0'', asc ''Date'', asc '' QUANTIT'' @ [201, 32],
                          asc ''Prix'', asc ''Nom'']
            \<and> h' \<noteq> [])
   \<and> skipped (asc ''Unnamed: 0'')
   \<and> headerStep [(''date'', asc ''Date'')] (asc ''Unnamed: 0'') = [(''date'', asc ''Date'')]
   \<and> normalizeHeaders [asc '' QUANTIT'' @ [201, 32]] = [(''quantity'', asc '' QUANTIT'' @ [201, 32])]"
proof -
  let ?h = "asc '' QUANTIT'' @ [201, 32]"
  let ?v = "asc ''quantit'' @ [233]"
  let ?hs = "[asc ''Unnamed: 0'', asc ''Date'', ?h, asc ''Prix'', asc ''Nom'']"
  have req: "''quantity'' \<in> set requiredFields"
    by (simp add: requiredFields_def)
  have var: "?v \<in> set (variantsOf ''quantity'')"
    by (simp add: variantsOf_def fieldMappings_def)
  have nv: "normalizeVariation ?v = asc ''quantite''"
    by (simp add: asc_simps nv_letter nv_special normalizeVariation_Nil)
  have lh: "lowerHeader ?h = asc ''quantite''"
    by (simp add: lowerHeader_eq normalizeVariation_Cons normalizeVariation_Nil asc_simps
        foldAccent_def lowerUnit_def noise_def isSpace_def)
  have mem: "?h \<in> set ?hs" by simp
  have sk: "skipped (asc ''Unnamed: 0'')"
    by (simp add: skipped_def asc_simps startsWith_simps)
  have nsk: "\<not> skipped ?h"
    by (simp add: skipped_def asc_simps startsWith_simps)
  have ff: "firstField (asc ''quantite'') = Some ''quantity''"
    using quantity_first by simp
  note inst = normalizeHeaders_required[of "''quantity''" ?v ?h ?hs "[]" "[]" "[(''date'', asc ''Date'')]" "[]" "[]"]
  from inst req var mem lh nv
  have a: "\<exists>h'. map_of (normalizeHeaders ?hs) ''quantity'' = Some h' \<and> h' \<in> set ?hs \<and> h' \<noteq> []"
    by simp
  note inst2 = normalizeHeaders_required[of "''quantity''" ?v "asc ''Unnamed: 0''" ?hs "[]" "[]" "[(''date'', asc ''Date'')]" "[]" "[]"]
  from inst2 sk have b: "headerStep [(''date'', asc ''Date'')] (asc ''Unnamed: 0'') = [(''date'', asc ''Date'')]"
    by blast
  from inst nsk have c: "normalizeHeaders [?h] = [(''quantity'', ?h)]"
    by (simp add: lh ff)
  from req var lh nv a sk b c show ?thesis by simp
qed


subsection \<open>Rows\<close>








lemma digitsOf_numeral:
  "digitsOf (numeral k) n
     = (if n < 10 then [48 + n] else digitsOf (pred_numeral k) (n div 10) @ [48 + n mod 10])"
  by (simp add: numeral_eq_Suc)

lemma digitsOf_one: "digitsOf (Suc 0) n = (if n < 10 then [48 + n] else [48 + n mod 10])"
  by simp










lemma includes_unit: "includes_str s [c] \<longleftrightarrow> c \<in> set s"
  by (induction s) (auto simp: startsWith_simps)

lemma split_str_length: "length (split_str c s) = Suc (count_list s c)"
  by (induction s) (auto split: list.splits)

lemma civil_19797: "civilFromDays 19797 = (2024, 3, 15)"
  unfolding civilFromDays_def Let_def by simp

lemma civil_19796: "civilFromDays 19796 = (2024, 3, 14)"
  unfolding civilFromDays_def Let_def by simp

lemma iso_15: "toISODate 1710460800000 = asc ''2024-03-15''"
proof -
  have "(1710460800000 :: int) div 86400000 = 19797" by simp
  then show ?thesis
    by (simp add: toISODate_def civil_19797 pad_def showNat_def digitsOf_numeral digitsOf_one asc_simps)
qed

lemma iso_14: "toISODate 1710457200000 = asc ''2024-03-14''"
proof -
  have "(1710457200000 :: int) div 86400000 = 19796" by simp
  then show ?thesis
    by (simp add: toISODate_def civil_19796 pad_def showNat_def digitsOf_numeral digitsOf_one asc_simps)
qed

lemma day_first_15:
  "parseDateString utcEnv (asc ''15/03/2024'') = Some 1710460800000"
  "parseDateString utcEnv (asc ''15-03-2024'') = Some 1710460800000"
  "parseDateString parisEnv (asc ''15/03/2024'') = Some 1710457200000"
proof -
  have pi: "parseInt (asc ''15'') = Some 15" "parseInt (asc ''03'') = Some 3"
    "parseInt (asc ''2024'') = Some 2024"
    by (simp_all add: parseInt_def scanSign_def isSpace_def startsWith_simps digitValue_def
        isDigit_def radixValue_def asc_simps)
  have sp: "split_str 47 (asc ''15/03/2024'') = [asc ''15'', asc ''03'', asc ''2024'']"
    "split_str 45 (asc ''15-03-2024'') = [asc ''15'', asc ''03'', asc ''2024'']"
    by (simp_all add: asc_simps)
  have ld: "localDate utcEnv (Some 2024) (monthIndex (Some 3)) (Some 15) = Some 1710460800000"
    "localDate parisEnv (Some 2024) (monthIndex (Some 3)) (Some 15) = Some 1710457200000"
    by (simp_all add: localDate_def parisEnv_def utcEnv_def makeDay_def daysFromCivil_def timeClip_def
        monthIndex_def Let_def)
  have inc: "47 \<in> set (asc ''15/03/2024'')" "47 \<notin> set (asc ''15-03-2024'')"
    "45 \<in> set (asc ''15-03-2024'')" "length (asc ''15'') = 2"
    by (simp_all add: asc_simps)
  show "parseDateString utcEnv (asc ''15/03/2024'') = Some 1710460800000"
    "parseDateString utcEnv (asc ''15-03-2024'') = Some 1710460800000"
    "parseDateString parisEnv (asc ''15/03/2024'') = Some 1710457200000"
    unfolding parseDateString_def includes_unit sp by (simp_all add: inc pi ld)
qed

lemma iso_parse: "isoDateParse (asc ''2024-03-15'') = Some 1710460800000"
proof -
  have sp: "split_str 45 (asc ''2024-03-15'') = [asc ''2024'', asc ''03'', asc ''15'']"
    by (simp add: asc_simps)
  have dv: "decimalValue (asc ''2024'') = 2024" "decimalValue (asc ''03'') = 3"
    "decimalValue (asc ''15'') = 15"
    by (simp_all add: decimalValue_def asc_simps)
  have dc: "daysFromCivil 2024 3 15 = 19797"
    by (simp add: daysFromCivil_def Let_def)
  show ?thesis
    unfolding isoDateParse_def sp by (simp add: dv dc) (simp add: asc_simps isDigit_def)
qed

lemma hier_unparsed: "parseDateString utcEnv (asc ''hier'') = None"
proof -
  have "47 \<notin> set (asc ''hier'')" "45 \<notin> set (asc ''hier'')" by (simp_all add: asc_simps)
  moreover have "isoDateParse (asc ''hier'') = None"
    by (simp add: isoDateParse_def asc_simps)
  ultimately show ?thesis
    by (simp add: parseDateString_def includes_unit utcEnv_def)
qed



lemma sheet_dates:
  "resolveDate utcEnv (CStr (asc ''15/03/2024'')) = DateOk (asc ''2024-03-15'')"
  "resolveDate utcEnv (CStr (asc ''15-03-2024'')) = DateOk (asc ''2024-03-15'')"
  "resolveDate utcEnv (CStr (asc ''2024-03-15'')) = DateOk (asc ''2024-03-15'')"
  "resolveDate utcEnv (CStr (asc ''hier'')) = DateInvalid"
  "resolveDate utcEnv (CNum 45366) = DateOk (asc ''2024-03-15'')"
  "resolveDate utcEnv (CNum 100000000000000000000) = DateThrows"
  "resolveDate parisEnv (CStr (asc ''15/03/2024'')) = DateOk (asc ''2024-03-14'')"
proof -
  have "47 \<notin> set (asc ''2024-03-15'')" "45 \<in> set (asc ''2024-03-15'')"
    "split_str 45 (asc ''2024-03-15'') = [asc ''2024'', asc ''03'', asc ''15'']"
    "length (asc ''2024'') = 4"
    by (simp_all add: asc_simps)
  then have iso: "parseDateString utcEnv (asc ''2024-03-15'') = Some 1710460800000"
    unfolding parseDateString_def includes_unit by (simp add: utcEnv_def iso_parse)
  show "resolveDate utcEnv (CStr (asc ''15/03/2024'')) = DateOk (asc ''2024-03-15'')"
    "resolveDate utcEnv (CStr (asc ''15-03-2024'')) = DateOk (asc ''2024-03-15'')"
    "resolveDate utcEnv (CStr (asc ''2024-03-15'')) = DateOk (asc ''2024-03-15'')"
    "resolveDate utcEnv (CStr (asc ''hier'')) = DateInvalid"
    "resolveDate parisEnv (CStr (asc ''15/03/2024'')) = DateOk (asc ''2024-03-14'')"
    by (simp_all add: resolveDate_def cellToString_def day_first_15 iso hier_unparsed iso_15 iso_14)
  show "resolveDate utcEnv (CNum 45366) = DateOk (asc ''2024-03-15'')"
    by (simp add: resolveDate_def timeClip_def iso_15)
  show "resolveDate utcEnv (CNum 100000000000000000000) = DateThrows"
    by (simp add: resolveDate_def timeClip_def)
qed









subsection \<open>Dates\<close>


lemma count_list_none: "c \<notin> set s \<Longrightarrow> count_list s c = 0"
  by (induction s) auto

lemma split_str_three:
  "length (split_str c s) = 3 \<longleftrightarrow> count_list s c = 2"
  by (simp add: split_str_length)




text \<open>East of Greenwich, local midnight lies on the day before in UTC, and the date of
  the record is that day.\<close>

lemma local_midnight_shifts:
  "resolveDate parisEnv (CStr (asc ''15/03/2024'')) = DateOk (asc ''2024-03-14'')"
  by (rule sheet_dates)





end
